theory Spec2Isabelle
  imports Complex_Main "HOL-Library.Sublist"
begin

section \<open>JSON values as the configuration code sees them\<close>

text \<open>
  A configuration document is whatever \<^verbatim>\<open>JSON.parse\<close> returns. An object is the list of
  its own properties in insertion order (looked up with \<open>map_of\<close>); numbers are rationals,
  which covers every literal of the repository (\<open>0.95\<close>, \<open>1200\<close>, ...). A property read
  that yields \<^verbatim>\<open>undefined\<close> is \<open>None\<close>.
\<close>

datatype json =
    JNull
  | JBool bool
  | JNum rat
  | JStr string
  | JArr "json list"
  | JObj "(string \<times> json) list"

type_synonym props = "(string \<times> json) list"

datatype js_error =
    SyntaxError string
  | TypeError string
  | FsError string
  | ValidationError string "string option"
  | ConfigurationError string js_error
  | JsError string

fun isConfigurationError :: "js_error \<Rightarrow> bool" where
  "isConfigurationError (ConfigurationError m e) = True"
| "isConfigurationError e = False"

fun isValidationError :: "js_error \<Rightarrow> bool" where
  "isValidationError (ValidationError m f) = True"
| "isValidationError e = False"

text \<open>JavaScript truthiness and \<^verbatim>\<open>typeof\<close> of a parsed value (\<open>None\<close> is \<^verbatim>\<open>undefined\<close>).\<close>

fun truthy :: "json option \<Rightarrow> bool" where
  "truthy None = False"
| "truthy (Some JNull) = False"
| "truthy (Some (JBool b)) = b"
| "truthy (Some (JNum n)) = (n \<noteq> 0)"
| "truthy (Some (JStr s)) = (s \<noteq> [])"
| "truthy (Some (JArr xs)) = True"
| "truthy (Some (JObj kvs)) = True"

fun typeof :: "json option \<Rightarrow> string" where
  "typeof None = ''undefined''"
| "typeof (Some JNull) = ''object''"
| "typeof (Some (JBool b)) = ''boolean''"
| "typeof (Some (JNum n)) = ''number''"
| "typeof (Some (JStr s)) = ''string''"
| "typeof (Some (JArr xs)) = ''object''"
| "typeof (Some (JObj kvs)) = ''object''"

text \<open>
  Reading a named property \<^verbatim>\<open>v.k\<close> of a non-null value. The keys this code reads
  (\<^verbatim>\<open>pdf\<close>, \<^verbatim>\<open>margin\<close>, \<^verbatim>\<open>top\<close>, ...) are neither indices nor \<^verbatim>\<open>length\<close> nor prototype
  members, so on arrays, strings, numbers and booleans the read is \<^verbatim>\<open>undefined\<close>.
\<close>

fun prop_of :: "json \<Rightarrow> string \<Rightarrow> json option" where
  "prop_of (JObj kvs) k = map_of kvs k"
| "prop_of v k = None"

fun prop_opt :: "json option \<Rightarrow> string \<Rightarrow> json option" where
  "prop_opt None k = None"
| "prop_opt (Some v) k = prop_of v k"

fun digit_char :: "nat \<Rightarrow> char" where
  "digit_char n = char_of (48 + n)"

fun show_nat :: "nat \<Rightarrow> string" where
  "show_nat n = (if n < 10 then [digit_char n] else show_nat (n div 10) @ [digit_char (n mod 10)])"

text \<open>
  The own enumerable properties an object spread \<^verbatim>\<open>{...v}\<close> copies: the properties of
  an object, the indexed elements of an array, the indexed characters of a string, and
  nothing for \<^verbatim>\<open>undefined\<close>, \<^verbatim>\<open>null\<close>, numbers and booleans.
\<close>

fun indexed :: "nat \<Rightarrow> json list \<Rightarrow> props" where
  "indexed i [] = []"
| "indexed i (x # xs) = (show_nat i, x) # indexed (Suc i) xs"

fun own_props :: "json option \<Rightarrow> props" where
  "own_props (Some (JObj kvs)) = kvs"
| "own_props (Some (JArr xs)) = indexed 0 xs"
| "own_props (Some (JStr s)) = indexed 0 (map (\<lambda>c. JStr [c]) s)"
| "own_props v = []"

text \<open>Assigning \<^verbatim>\<open>o.k = v\<close>: an existing property keeps its place, a new one is appended.\<close>

fun set_prop :: "string \<Rightarrow> json \<Rightarrow> props \<Rightarrow> props" where
  "set_prop k v [] = [(k, v)]"
| "set_prop k v (p # ps) = (if fst p = k then (k, v) # ps else p # set_prop k v ps)"

fun assign_all :: "props \<Rightarrow> props \<Rightarrow> props" where
  "assign_all acc [] = acc"
| "assign_all acc (p # ps) = assign_all (set_prop (fst p) (snd p) acc) ps"

definition spread2 :: "json option \<Rightarrow> json option \<Rightarrow> props" where
  "spread2 a b = assign_all (assign_all [] (own_props a)) (own_props b)"

text \<open>\<^verbatim>\<open>JSON.parse(JSON.stringify(v))\<close>: a structural copy of a value that came from JSON.\<close>

fun deep_clone :: "json \<Rightarrow> json" where
  "deep_clone JNull = JNull"
| "deep_clone (JBool b) = JBool b"
| "deep_clone (JNum n) = JNum n"
| "deep_clone (JStr s) = JStr s"
| "deep_clone (JArr xs) = JArr (map deep_clone xs)"
| "deep_clone (JObj kvs) = JObj (map (\<lambda>p. (fst p, deep_clone (snd p))) kvs)"

section \<open>src/constants.js\<close>

definition DEFAULT_CONFIG :: props where
  "DEFAULT_CONFIG =
    [(''PDF'', JObj
        [(''FORMAT'', JStr ''A4''),
         (''SCALE'', JNum (95 / 100)),
         (''PRINT_BACKGROUND'', JBool True),
         (''PREFER_CSS_PAGE_SIZE'', JBool False),
         (''DISPLAY_HEADER_FOOTER'', JBool False),
         (''OMIT_BACKGROUND'', JBool False),
         (''MARGIN'', JObj
            [(''TOP'', JStr ''15mm''),
             (''BOTTOM'', JStr ''15mm''),
             (''LEFT'', JStr ''10mm''),
             (''RIGHT'', JStr ''10mm'')])]),
     (''VIEWPORT'', JObj
        [(''WIDTH'', JNum 1200),
         (''HEIGHT'', JNum 1600),
         (''DEVICE_SCALE_FACTOR'', JNum 2)]),
     (''TIMEOUTS'', JObj
        [(''PAGE_LOAD'', JNum 30000),
         (''IMAGE_RENDER'', JNum 1000)]),
     (''OUTPUT'', JObj
        [(''FILENAME'', JStr ''CV.pdf'')])]"

definition WARNING_CONFIG :: string where
  "WARNING_CONFIG = ''Warning: Could not load config from''"

definition WARNING_FALLBACK :: string where
  "WARNING_FALLBACK = ''using defaults''"

definition CONFIG_INVALID :: string where
  "CONFIG_INVALID = ''Invalid configuration format''"

section \<open>src/utils/Logger.js\<close>

datatype log_level = DEBUG | INFO | WARN | ERROR

fun LOG_LEVELS :: "log_level \<Rightarrow> int" where
  "LOG_LEVELS DEBUG = 0"
| "LOG_LEVELS INFO = 1"
| "LOG_LEVELS WARN = 2"
| "LOG_LEVELS ERROR = 3"

text \<open>
  A call of \<^verbatim>\<open>logger.debug/info/warn/error\<close> with its message. The logger prints the
  call when its threshold \<^verbatim>\<open>this.level\<close> is at most the level of the call.
\<close>

type_synonym log_call = "log_level \<times> string"

definition printed :: "int \<Rightarrow> log_call list \<Rightarrow> log_call list" where
  "printed level calls = filter (\<lambda>c. level \<le> LOG_LEVELS (fst c)) calls"

section \<open>The configuration validator (ConfigValidator module)\<close>

text \<open>The guard \<^verbatim>\<open>!v || typeof v !== 'object'\<close> that opens every validator.\<close>

definition not_object :: "json option \<Rightarrow> bool" where
  "not_object v = (\<not> truthy v \<or> typeof v \<noteq> ''object'')"

fun num_of :: "json option \<Rightarrow> rat" where
  "num_of (Some (JNum n)) = n"
| "num_of v = 0"

fun validateMarginKeys :: "json option \<Rightarrow> string list \<Rightarrow> js_error option" where
  "validateMarginKeys margin [] = None"
| "validateMarginKeys margin (key # keys) =
     (if truthy (prop_opt margin key) \<and> typeof (prop_opt margin key) \<noteq> ''string''
      then Some (ValidationError (''Margin '' @ key @ '' must be a string (e.g., '' @ [CHR 0x27] @ ''15mm'' @ [CHR 0x27] @ '')'')
                   (Some (''pdf.margin.'' @ key)))
      else validateMarginKeys margin keys)"

definition validateMargin :: "json option \<Rightarrow> js_error option" where
  "validateMargin margin = validateMarginKeys margin [''top'', ''bottom'', ''left'', ''right'']"

definition validatePDFConfig :: "json option \<Rightarrow> js_error option" where
  "validatePDFConfig config =
     (if not_object config
      then Some (ValidationError ''PDF configuration must be an object'' (Some ''pdf''))
      else if truthy (prop_opt config ''format'') \<and> typeof (prop_opt config ''format'') \<noteq> ''string''
      then Some (ValidationError ''PDF format must be a string'' (Some ''pdf.format''))
      else if prop_opt config ''scale'' \<noteq> None \<and>
              (typeof (prop_opt config ''scale'') \<noteq> ''number'' \<or>
               num_of (prop_opt config ''scale'') \<le> 0 \<or> num_of (prop_opt config ''scale'') > 1)
      then Some (ValidationError ''PDF scale must be a number between 0 and 1'' (Some ''pdf.scale''))
      else if truthy (prop_opt config ''margin'')
      then validateMargin (prop_opt config ''margin'')
      else None)"

definition validateViewport :: "json option \<Rightarrow> js_error option" where
  "validateViewport viewport =
     (if not_object viewport
      then Some (ValidationError ''Viewport configuration must be an object'' (Some ''viewport''))
      else if prop_opt viewport ''width'' \<noteq> None \<and>
              (typeof (prop_opt viewport ''width'') \<noteq> ''number'' \<or> num_of (prop_opt viewport ''width'') \<le> 0)
      then Some (ValidationError ''Viewport width must be a positive number'' (Some ''viewport.width''))
      else if prop_opt viewport ''height'' \<noteq> None \<and>
              (typeof (prop_opt viewport ''height'') \<noteq> ''number'' \<or> num_of (prop_opt viewport ''height'') \<le> 0)
      then Some (ValidationError ''Viewport height must be a positive number'' (Some ''viewport.height''))
      else if prop_opt viewport ''deviceScaleFactor'' \<noteq> None \<and>
              (typeof (prop_opt viewport ''deviceScaleFactor'') \<noteq> ''number'' \<or>
               num_of (prop_opt viewport ''deviceScaleFactor'') < 1 \<or>
               num_of (prop_opt viewport ''deviceScaleFactor'') > 3)
      then Some (ValidationError ''Device scale factor must be a number between 1 and 3''
                   (Some ''viewport.deviceScaleFactor''))
      else None)"

definition validateTimeouts :: "json option \<Rightarrow> js_error option" where
  "validateTimeouts timeouts =
     (if not_object timeouts
      then Some (ValidationError ''Timeouts configuration must be an object'' (Some ''timeouts''))
      else if prop_opt timeouts ''pageLoad'' \<noteq> None \<and>
              (typeof (prop_opt timeouts ''pageLoad'') \<noteq> ''number'' \<or> num_of (prop_opt timeouts ''pageLoad'') \<le> 0)
      then Some (ValidationError ''Page load timeout must be a positive number'' (Some ''timeouts.pageLoad''))
      else if prop_opt timeouts ''imageRender'' \<noteq> None \<and>
              (typeof (prop_opt timeouts ''imageRender'') \<noteq> ''number'' \<or>
               num_of (prop_opt timeouts ''imageRender'') < 0)
      then Some (ValidationError ''Image render timeout must be a non-negative number''
                   (Some ''timeouts.imageRender''))
      else None)"

definition validateOutput :: "json option \<Rightarrow> js_error option" where
  "validateOutput output =
     (if not_object output
      then Some (ValidationError ''Output configuration must be an object'' (Some ''output''))
      else if truthy (prop_opt output ''filename'') \<and> typeof (prop_opt output ''filename'') \<noteq> ''string''
      then Some (ValidationError ''Output filename must be a string'' (Some ''output.filename''))
      else None)"

text \<open>
  \<^verbatim>\<open>validateConfig\<close>: the first failing check throws; \<open>None\<close> is the normal return.
\<close>

definition first_error :: "js_error option \<Rightarrow> js_error option \<Rightarrow> js_error option" where
  "first_error a b = (case a of Some e \<Rightarrow> Some e | None \<Rightarrow> b)"

definition validateConfig :: "json \<Rightarrow> js_error option" where
  "validateConfig config =
     (if not_object (Some config)
      then Some (ValidationError ''Configuration must be an object'' None)
      else
        first_error (if truthy (prop_of config ''pdf'') then validatePDFConfig (prop_of config ''pdf'') else None)
       (first_error (if truthy (prop_of config ''viewport'') then validateViewport (prop_of config ''viewport'') else None)
       (first_error (if truthy (prop_of config ''timeouts'') then validateTimeouts (prop_of config ''timeouts'') else None)
                    (if truthy (prop_of config ''output'') then validateOutput (prop_of config ''output'') else None))))"

text \<open>
  \<^verbatim>\<open>mergeWithDefaults(userConfig, defaultConfig)\<close>. The defaults are an object (its
  property list); reading a property of a \<^verbatim>\<open>null\<close> user configuration is a TypeError.
\<close>

definition merge_section :: "string \<Rightarrow> json \<Rightarrow> props \<Rightarrow> props" where
  "merge_section k userConfig merged =
     (if truthy (prop_of userConfig k)
      then set_prop k (JObj (spread2 (map_of merged k) (prop_of userConfig k))) merged
      else merged)"

definition merge_pdf :: "json \<Rightarrow> props \<Rightarrow> props" where
  "merge_pdf userConfig merged =
     (if truthy (prop_of userConfig ''pdf'')
      then
        (let pdf1 = spread2 (map_of merged ''pdf'') (prop_of userConfig ''pdf'') in
         if truthy (prop_opt (prop_of userConfig ''pdf'') ''margin'')
         then set_prop ''pdf''
                (JObj (set_prop ''margin''
                   (JObj (spread2 (map_of pdf1 ''margin'') (prop_opt (prop_of userConfig ''pdf'') ''margin'')))
                   pdf1))
                merged
         else set_prop ''pdf'' (JObj pdf1) merged)
      else merged)"

definition mergeWithDefaults :: "json \<Rightarrow> props \<Rightarrow> js_error + json" where
  "mergeWithDefaults userConfig defaultConfig =
     (if userConfig = JNull then Inl (TypeError ''Cannot read properties of null'')
      else
        (let merged = own_props (Some (deep_clone (JObj defaultConfig)));
             merged = merge_pdf userConfig merged;
             merged = merge_section ''viewport'' userConfig merged;
             merged = merge_section ''timeouts'' userConfig merged;
             merged = merge_section ''output'' userConfig merged
         in Inr (JObj merged)))"

section \<open>src/config/PDFConfig.js\<close>

text \<open>
  The file at \<^verbatim>\<open>configPath\<close>: absent, present but not readable (\<^verbatim>\<open>readFileSync\<close> throws a
  file-system error), or present with its text. \<^verbatim>\<open>JSON.parse\<close> is the engine's: it is a
  parameter, returning the parsed value or the message of the SyntaxError it throws.
\<close>

datatype config_file = Absent | Unreadable string | Present string

type_synonym json_parser = "string \<Rightarrow> string + json"

definition fallback_warning :: "string \<Rightarrow> log_call" where
  "fallback_warning configPath = (WARN, WARNING_CONFIG @ '' '' @ configPath @ '', '' @ WARNING_FALLBACK)"

definition getDefaultConfig :: json where
  "getDefaultConfig = deep_clone (JObj DEFAULT_CONFIG)"

fun error_message :: "js_error \<Rightarrow> string" where
  "error_message (SyntaxError m) = m"
| "error_message (TypeError m) = m"
| "error_message (FsError m) = m"
| "error_message (ValidationError m f) = m"
| "error_message (ConfigurationError m e) = m"
| "error_message (JsError m) = m"

text \<open>
  \<^verbatim>\<open>loadConfig\<close> returns the configuration or the error it throws, with the calls it made
  on the logger. The outer \<^verbatim>\<open>catch\<close> rethrows a ConfigurationError, wraps a SyntaxError
  into a ConfigurationError, and turns any other error into the warning and the defaults.
\<close>

definition loadConfig_catch :: "string \<Rightarrow> js_error \<Rightarrow> (js_error + json) \<times> log_call list" where
  "loadConfig_catch configPath err =
     (case err of
        ConfigurationError m e \<Rightarrow> (Inl err, [])
      | SyntaxError m \<Rightarrow>
          (Inl (ConfigurationError (''Invalid JSON in configuration file: '' @ m) err), [])
      | _ \<Rightarrow> (Inr getDefaultConfig, [fallback_warning configPath]))"

definition loadConfig :: "json_parser \<Rightarrow> string \<Rightarrow> config_file \<Rightarrow> (js_error + json) \<times> log_call list" where
  "loadConfig parse configPath file =
     (case file of
        Absent \<Rightarrow> (Inr getDefaultConfig, [fallback_warning configPath])
      | Unreadable m \<Rightarrow> loadConfig_catch configPath (FsError m)
      | Present configData \<Rightarrow>
          (case parse configData of
             Inl m \<Rightarrow> loadConfig_catch configPath (SyntaxError m)
           | Inr userConfig \<Rightarrow>
               (case validateConfig userConfig of
                  Some validationError \<Rightarrow>
                    loadConfig_catch configPath
                      (ConfigurationError (CONFIG_INVALID @ '': '' @ error_message validationError) validationError)
                | None \<Rightarrow>
                    (case mergeWithDefaults userConfig DEFAULT_CONFIG of
                       Inl e \<Rightarrow> loadConfig_catch configPath e
                     | Inr mergedConfig \<Rightarrow>
                         (Inr mergedConfig, [(DEBUG, ''Configuration loaded successfully'')])))))"

section \<open>The PDFConfig class declared inside convertToPDF.js\<close>

text \<open>
  The conversion script carries its own configuration class, which \<^verbatim>\<open>convertToPDF()\<close>
  instantiates. Its \<^verbatim>\<open>loadConfig\<close> reads and parses inside one \<^verbatim>\<open>try\<close>; every error ends in
  \<^verbatim>\<open>console.warn\<close> and the defaults, which are written with lower-case keys. It returns the
  configuration and the lines it wrote with \<^verbatim>\<open>console.warn\<close>.
\<close>

definition inline_getDefaultConfig :: json where
  "inline_getDefaultConfig = JObj
    [(''pdf'', JObj
        [(''format'', JStr ''A4''),
         (''scale'', JNum (95 / 100)),
         (''printBackground'', JBool True),
         (''preferCSSPageSize'', JBool False),
         (''displayHeaderFooter'', JBool False),
         (''omitBackground'', JBool False),
         (''margin'', JObj
            [(''top'', JStr ''15mm''),
             (''bottom'', JStr ''15mm''),
             (''left'', JStr ''10mm''),
             (''right'', JStr ''10mm'')])]),
     (''viewport'', JObj
        [(''width'', JNum 1200),
         (''height'', JNum 1600),
         (''deviceScaleFactor'', JNum 2)]),
     (''timeouts'', JObj
        [(''pageLoad'', JNum 30000),
         (''imageRender'', JNum 1000)]),
     (''output'', JObj
        [(''filename'', JStr ''CV.pdf'')])]"

definition inline_warning :: "string \<Rightarrow> string" where
  "inline_warning configPath = ''Warning: Could not load config from '' @ configPath @ '', using defaults''"

definition inline_loadConfig :: "json_parser \<Rightarrow> string \<Rightarrow> config_file \<Rightarrow> json \<times> string list" where
  "inline_loadConfig parse configPath file =
     (case file of
        Present configData \<Rightarrow>
          (case parse configData of
             Inr config \<Rightarrow> (config, [])
           | Inl m \<Rightarrow> (inline_getDefaultConfig, [inline_warning configPath]))
      | _ \<Rightarrow> (inline_getDefaultConfig, [inline_warning configPath]))"

text \<open>
  A parser for the closed examples below: it accepts three literal documents and rejects
  every other text with a SyntaxError message, as \<^verbatim>\<open>JSON.parse\<close> does on the texts used there.
\<close>

definition literal_parse :: json_parser where
  "literal_parse s =
     (if s = ''null'' then Inr JNull
      else if s = ''{}'' then Inr (JObj [])
      else if s = ''[]'' then Inr (JArr [])
      else Inl ''Unexpected end of JSON input'')"

fun lookup_path :: "json option \<Rightarrow> string list \<Rightarrow> json option" where
  "lookup_path v [] = v"
| "lookup_path v (k # ks) = lookup_path (prop_opt v k) ks"

definition top_only :: "string \<Rightarrow> json" where
  "top_only t = JObj [(''pdf'', JObj [(''margin'', JObj [(''top'', JStr t)])])]"

section \<open>The live page that the in-page script works on\<close>

text \<open>
  The script passed to \<^verbatim>\<open>page.evaluate\<close> never creates, moves or removes a node: it reads
  the tree and writes three things of elements, namely inline style properties
  (\<^verbatim>\<open>el.style.x = v\<close>), class tokens (\<^verbatim>\<open>classList.add\<close>) and \<^verbatim>\<open>img.src\<close>. A page is therefore the
  node tree together with a store that maps every element, addressed by its path of child
  indices from the root element, to what can be written. Tag names are in lower case
  (the script's \<^verbatim>\<open>tagName === 'P'\<close> is \<open>tag_of pg p = ''p''\<close>), style properties carry their
  CSS names (\<^verbatim>\<open>style.backgroundColor\<close> is \<open>''background-color''\<close>), each property is a slot
  of its own, and \<open>src\<close> is the text that \<^verbatim>\<open>img.src\<close> reads and writes, empty when the image
  has none (relative references are not resolved against the document URL).
\<close>

datatype snode = TextNode string | Element string "snode list"

type_synonym path = "nat list"

type_synonym decls = "(string \<times> string) list"

record estate =
  classes :: "string list"
  style :: decls
  src :: string

record page =
  tree :: snode
  st :: "path \<Rightarrow> estate"

subsection \<open>Strings\<close>

definition str_includes :: "string \<Rightarrow> string \<Rightarrow> bool" where
  "str_includes s pat = sublist pat s"

fun before_first :: "string \<Rightarrow> string \<Rightarrow> string" where
  "before_first sep [] = []"
| "before_first sep (c # cs) = (if prefix sep (c # cs) then [] else c # before_first sep cs)"

fun after_first :: "string \<Rightarrow> string \<Rightarrow> string option" where
  "after_first sep [] = (if sep = [] then Some [] else None)"
| "after_first sep (c # cs) =
     (if prefix sep (c # cs) then Some (drop (length sep) (c # cs)) else after_first sep cs)"

text \<open>
  \<^verbatim>\<open>s.split(sep)[1]\<close> for a non-empty separator: the text between the first and the second
  occurrence of \<open>sep\<close> (or the end), and \<^verbatim>\<open>undefined\<close> when \<open>sep\<close> does not occur.
\<close>

definition split_second :: "string \<Rightarrow> string \<Rightarrow> string option" where
  "split_second sep s = map_option (before_first sep) (after_first sep s)"

subsection \<open>Reading the tree\<close>

fun node_at :: "snode \<Rightarrow> path \<Rightarrow> snode option" where
  "node_at n [] = Some n"
| "node_at (TextNode t) (i # p) = None"
| "node_at (Element tg kids) (i # p) = (if i < length kids then node_at (kids ! i) p else None)"

fun is_Element :: "snode \<Rightarrow> bool" where
  "is_Element (Element tg kids) = True"
| "is_Element (TextNode t) = False"

fun tag_name :: "snode option \<Rightarrow> string" where
  "tag_name (Some (Element tg kids)) = tg"
| "tag_name n = []"

fun child_nodes :: "snode option \<Rightarrow> snode list" where
  "child_nodes (Some (Element tg kids)) = kids"
| "child_nodes n = []"

definition tag_of :: "page \<Rightarrow> path \<Rightarrow> string" where
  "tag_of pg p = tag_name (node_at (tree pg) p)"

text \<open>The element nodes of a subtree in document order, as paths relative to its root.\<close>

fun elems_of :: "snode \<Rightarrow> path list"
  and elems_of_kids :: "nat \<Rightarrow> snode list \<Rightarrow> path list" where
  "elems_of (TextNode t) = []"
| "elems_of (Element tg kids) = [] # elems_of_kids 0 kids"
| "elems_of_kids i [] = []"
| "elems_of_kids i (k # ks) = map ((#) i) (elems_of k) @ elems_of_kids (Suc i) ks"

fun text_of :: "snode \<Rightarrow> string"
  and text_of_kids :: "snode list \<Rightarrow> string" where
  "text_of (TextNode t) = t"
| "text_of (Element tg kids) = text_of_kids kids"
| "text_of_kids [] = []"
| "text_of_kids (k # ks) = text_of k @ text_of_kids ks"

definition all_elements :: "page \<Rightarrow> path list" where
  "all_elements pg = elems_of (tree pg)"

definition descendants :: "page \<Rightarrow> path \<Rightarrow> path list" where
  "descendants pg el =
     (case node_at (tree pg) el of
        None \<Rightarrow> []
      | Some n \<Rightarrow> map ((@) el) (tl (elems_of n)))"

definition textContent :: "page \<Rightarrow> path \<Rightarrow> string" where
  "textContent pg el = (case node_at (tree pg) el of None \<Rightarrow> [] | Some n \<Rightarrow> text_of n)"

definition parentElement :: "path \<Rightarrow> path option" where
  "parentElement el = (if el = [] then None else Some (butlast el))"

text \<open>
  The chain \<^verbatim>\<open>el.nextElementSibling\<close>, \<^verbatim>\<open>.nextElementSibling\<close>, ... until \<^verbatim>\<open>null\<close>: the element
  siblings after \<open>el\<close>, in order.
\<close>

definition next_siblings :: "page \<Rightarrow> path \<Rightarrow> path list" where
  "next_siblings pg el =
     (if el = [] then []
      else
        (let kids = child_nodes (node_at (tree pg) (butlast el)) in
         map (\<lambda>j. butlast el @ [j])
           (filter (\<lambda>j. is_Element (kids ! j)) [Suc (last el) ..< length kids])))"

text \<open>\<^verbatim>\<open>:first-child\<close>: no element sibling stands before the element.\<close>

definition first_child :: "page \<Rightarrow> path \<Rightarrow> bool" where
  "first_child pg el =
     (el = [] \<or>
      (let kids = child_nodes (node_at (tree pg) (butlast el)) in
       list_all (\<lambda>j. \<not> is_Element (kids ! j)) [0 ..< min (last el) (length kids)]))"

definition ancestors :: "path \<Rightarrow> path list" where
  "ancestors el = map (\<lambda>n. take n el) [0 ..< length el]"

text \<open>\<^verbatim>\<open>el.closest('header')\<close> is not \<^verbatim>\<open>null\<close>: the element or one of its ancestors is a header.\<close>

definition closest_tag :: "page \<Rightarrow> path \<Rightarrow> string \<Rightarrow> bool" where
  "closest_tag pg el tg = list_ex (\<lambda>q. tag_of pg q = tg) (el # ancestors el)"

subsection \<open>Inline style\<close>

fun css_set :: "string \<Rightarrow> string \<Rightarrow> decls \<Rightarrow> decls" where
  "css_set k v [] = [(k, v)]"
| "css_set k v (d # ds) = (if fst d = k then (k, v) # ds else d # css_set k v ds)"

definition css_get :: "string \<Rightarrow> decls \<Rightarrow> string" where
  "css_get k ds = (case map_of ds k of None \<Rightarrow> [] | Some v \<Rightarrow> v)"

text \<open>
  The text of the \<^verbatim>\<open>style\<close> attribute, which \<^verbatim>\<open>getAttribute('style')\<close> and the attribute
  selector \<^verbatim>\<open>[style*="..."]\<close> read: the declarations serialised in order.
\<close>

fun style_attr :: "decls \<Rightarrow> string" where
  "style_attr [] = []"
| "style_attr (d # ds) =
     fst d @ '': '' @ snd d @ '';'' @ (if ds = [] then [] else '' '' @ style_attr ds)"

subsection \<open>Selectors\<close>

text \<open>
  The selectors the script uses: \<^verbatim>\<open>img\<close> is \<open>Tag ''img''\<close>, \<^verbatim>\<open>.lead\<close> is \<open>Cls ''lead''\<close>,
  \<^verbatim>\<open>div[style*="line-height"]\<close> is \<open>TagStyleHas ''div'' ''line-height''\<close>, \<^verbatim>\<open>li:first-child\<close> is
  \<open>TagFirstChild ''li''\<close>, \<^verbatim>\<open>header h1\<close> is \<open>Desc (Tag ''header'') (Tag ''h1'')\<close> and a comma list
  is \<open>AnyOf\<close>.
\<close>

datatype selector =
    Tag string
  | Cls string
  | TagStyleHas string string
  | TagFirstChild string
  | Desc selector selector
  | AnyOf "selector list"

fun matches :: "page \<Rightarrow> selector \<Rightarrow> path \<Rightarrow> bool" where
  "matches pg (Tag tg) el = (tag_of pg el = tg)"
| "matches pg (Cls c) el = (c \<in> set (classes (st pg el)))"
| "matches pg (TagStyleHas tg pat) el =
     (tag_of pg el = tg \<and> str_includes (style_attr (style (st pg el))) pat)"
| "matches pg (TagFirstChild tg) el = (tag_of pg el = tg \<and> first_child pg el)"
| "matches pg (Desc a b) el = (matches pg b el \<and> list_ex (matches pg a) (ancestors el))"
| "matches pg (AnyOf sels) el = list_ex (\<lambda>s. matches pg s el) sels"

definition querySelectorAll :: "page \<Rightarrow> selector \<Rightarrow> path list" where
  "querySelectorAll pg sel = filter (matches pg sel) (all_elements pg)"

definition querySelectorAll_in :: "page \<Rightarrow> path \<Rightarrow> selector \<Rightarrow> path list" where
  "querySelectorAll_in pg el sel = filter (matches pg sel) (descendants pg el)"

fun first_of :: "'a list \<Rightarrow> 'a option" where
  "first_of [] = None"
| "first_of (x # xs) = Some x"

definition querySelector :: "page \<Rightarrow> selector \<Rightarrow> path option" where
  "querySelector pg sel = first_of (querySelectorAll pg sel)"

definition querySelector_in :: "page \<Rightarrow> path \<Rightarrow> selector \<Rightarrow> path option" where
  "querySelector_in pg el sel = first_of (querySelectorAll_in pg el sel)"

text \<open>\<^verbatim>\<open>document.body\<close>: the first \<^verbatim>\<open>body\<close> child of the root element, or \<^verbatim>\<open>null\<close>.\<close>

definition document_body :: "page \<Rightarrow> path option" where
  "document_body pg =
     first_of (map (\<lambda>j. [j])
       (filter (\<lambda>j. tag_name (Some (child_nodes (Some (tree pg)) ! j)) = ''body'')
          [0 ..< length (child_nodes (Some (tree pg)))]))"

subsection \<open>Writes\<close>

datatype dom_write =
    SetStyle path string string
  | AddClass path string
  | SetSrc path string

definition upd_elem :: "path \<Rightarrow> (estate \<Rightarrow> estate) \<Rightarrow> page \<Rightarrow> page" where
  "upd_elem el f pg = pg\<lparr>st := (st pg)(el := f (st pg el))\<rparr>"

fun do_write :: "dom_write \<Rightarrow> page \<Rightarrow> page" where
  "do_write (SetStyle el k v) pg = upd_elem el (\<lambda>e. e\<lparr>style := css_set k v (style e)\<rparr>) pg"
| "do_write (AddClass el c) pg =
     upd_elem el (\<lambda>e. e\<lparr>classes := (if c \<in> set (classes e) then classes e else classes e @ [c])\<rparr>) pg"
| "do_write (SetSrc el v) pg = upd_elem el (\<lambda>e. e\<lparr>src := v\<rparr>) pg"

definition do_writes :: "dom_write list \<Rightarrow> page \<Rightarrow> page" where
  "do_writes ws pg = fold do_write ws pg"

text \<open>
  A loop \<^verbatim>\<open>list.forEach(x => { ... })\<close> whose body only writes: the writes of the
  iterations, in order. \<open>run\<close> performs the writes that a block computes from the page it
  starts on; a block is used only where none of its reads can see one of its own writes.
\<close>

definition forEach :: "'a list \<Rightarrow> ('a \<Rightarrow> dom_write list) \<Rightarrow> dom_write list" where
  "forEach xs body = concat (map body xs)"

definition run :: "(page \<Rightarrow> dom_write list) \<Rightarrow> page \<Rightarrow> page" where
  "run block pg = do_writes (block pg) pg"

section \<open>PDFGenerator.applyOptimizations: the script evaluated in the page\<close>

definition HOSTED_ASSETS :: string where
  "HOSTED_ASSETS = ''arnauudg.github.io/assets/''"

text \<open>The template literal \<^verbatim>\<open>`assets/${filename}`\<close>.\<close>

definition relative_asset :: "string option \<Rightarrow> string" where
  "relative_asset filename =
     ''assets/'' @ (case filename of None \<Rightarrow> ''undefined'' | Some f \<Rightarrow> f)"

text \<open>Convert absolute GitHub Pages URLs to relative paths.\<close>

definition allImages_block :: "page \<Rightarrow> dom_write list" where
  "allImages_block pg =
     forEach (querySelectorAll pg (Tag ''img'')) (\<lambda>img.
       if src (st pg img) \<noteq> [] \<and> str_includes (src (st pg img)) HOSTED_ASSETS
       then [SetSrc img (relative_asset (split_second ''/assets/'' (src (st pg img))))]
       else [])"

text \<open>Change background to white.\<close>

definition background_block :: "path \<Rightarrow> page \<Rightarrow> dom_write list" where
  "background_block body pg =
     SetStyle body ''background-color'' ''#ffffff'' #
     (case querySelector pg (Cls ''container'') of
        None \<Rightarrow> []
      | Some container \<Rightarrow>
          [SetStyle container ''background-color'' ''#ffffff'',
           SetStyle container ''border'' ''none''])"

text \<open>Section titles, headers, body text, lead text, paragraphs, emphasis, list items.\<close>

definition titles_block :: "page \<Rightarrow> dom_write list" where
  "titles_block pg =
     forEach (querySelectorAll pg (Cls ''section-title'')) (\<lambda>title.
       [SetStyle title ''color'' ''#000000'',
        SetStyle title ''border-bottom'' ''3px solid #0066cc'',
        SetStyle title ''padding-bottom'' ''10px'',
        SetStyle title ''margin-bottom'' ''20px''])"

definition headers_block :: "page \<Rightarrow> dom_write list" where
  "headers_block pg =
     forEach (querySelectorAll pg (AnyOf [Desc (Tag ''header'') (Tag ''h1''), Tag ''h1''])) (\<lambda>header.
       [SetStyle header ''color'' ''#000000''])"

definition h4Elements_block :: "page \<Rightarrow> dom_write list" where
  "h4Elements_block pg =
     forEach (querySelectorAll pg (Tag ''h4'')) (\<lambda>h4. [SetStyle h4 ''color'' ''#000000''])"

definition h5Elements_block :: "page \<Rightarrow> dom_write list" where
  "h5Elements_block pg =
     forEach (querySelectorAll pg (Tag ''h5'')) (\<lambda>h5. [SetStyle h5 ''color'' ''#333333''])"

definition bodyColor_block :: "path \<Rightarrow> page \<Rightarrow> dom_write list" where
  "bodyColor_block body pg = [SetStyle body ''color'' ''#000000'']"

definition leads_block :: "page \<Rightarrow> dom_write list" where
  "leads_block pg =
     forEach (querySelectorAll pg (Cls ''lead'')) (\<lambda>lead. [SetStyle lead ''color'' ''#333333''])"

definition paragraphs_block :: "page \<Rightarrow> dom_write list" where
  "paragraphs_block pg =
     forEach (querySelectorAll pg (Tag ''p'')) (\<lambda>p.
       if \<not> closest_tag pg p ''header'' then [SetStyle p ''color'' ''#000000''] else [])"

definition strongElements_block :: "page \<Rightarrow> dom_write list" where
  "strongElements_block pg =
     forEach (querySelectorAll pg (Tag ''strong'')) (\<lambda>strong. [SetStyle strong ''color'' ''#000000''])"

definition emElements_block :: "page \<Rightarrow> dom_write list" where
  "emElements_block pg =
     forEach (querySelectorAll pg (Tag ''em'')) (\<lambda>em. [SetStyle em ''color'' ''#333333''])"

definition smallElements_block :: "page \<Rightarrow> dom_write list" where
  "smallElements_block pg =
     forEach (querySelectorAll pg (Tag ''small'')) (\<lambda>small. [SetStyle small ''color'' ''#555555''])"

definition listItemsForColor_block :: "page \<Rightarrow> dom_write list" where
  "listItemsForColor_block pg =
     forEach (querySelectorAll pg (Tag ''li'')) (\<lambda>li. [SetStyle li ''color'' ''#000000''])"

text \<open>
  The test \<^verbatim>\<open>sectionTitle && sectionTitle.textContent.includes('Technical Skills')\<close> on
  \<^verbatim>\<open>section.querySelector('.section-title')\<close>.
\<close>

definition is_skills_section :: "page \<Rightarrow> path \<Rightarrow> bool" where
  "is_skills_section pg section =
     (case querySelector_in pg section (Cls ''section-title'') of
        None \<Rightarrow> False
      | Some sectionTitle \<Rightarrow> str_includes (textContent pg sectionTitle) ''Technical Skills'')"

text \<open>Paragraphs and strong tags of the skills section (first pass over the sections).\<close>

definition skillsSections_block :: "page \<Rightarrow> dom_write list" where
  "skillsSections_block pg =
     forEach (querySelectorAll pg (Tag ''section'')) (\<lambda>section.
       if is_skills_section pg section
       then
         forEach (querySelectorAll_in pg section (Tag ''p'')) (\<lambda>p.
           [SetStyle p ''color'' ''#000000'',
            SetStyle p ''margin-bottom'' ''4px'',
            SetStyle p ''line-height'' ''1.5'']) @
         forEach (querySelectorAll_in pg section (Tag ''strong'')) (\<lambda>strong.
           [SetStyle strong ''color'' ''#000000''])
       else [])"

definition skillCategories_block :: "page \<Rightarrow> dom_write list" where
  "skillCategories_block pg =
     forEach (querySelectorAll pg (Cls ''collapsible-skill-category'')) (\<lambda>category.
       [SetStyle category ''color'' ''#000000''])"

text \<open>
  The second pass over the sections (new format). The body of one section is a block: the
  \<^verbatim>\<open>div[style*="line-height"]\<close> query follows writes to \<^verbatim>\<open>p\<close> elements only, and
  \<^verbatim>\<open>strong.style.display\<close> is read after writes of \<^verbatim>\<open>color\<close> only. The sections are visited
  one after the other, each body working on the page the previous one left.
\<close>

definition skills_section_block :: "path \<Rightarrow> page \<Rightarrow> dom_write list" where
  "skills_section_block section pg =
     (if is_skills_section pg section
      then
        forEach (querySelectorAll_in pg section (Tag ''p'')) (\<lambda>p.
          [SetStyle p ''color'' ''#000000'',
           SetStyle p ''line-height'' ''1.6'']) @
        forEach (querySelectorAll_in pg section (TagStyleHas ''div'' ''line-height'')) (\<lambda>skillDiv.
          SetStyle skillDiv ''color'' ''#000000'' #
          forEach (querySelectorAll_in pg skillDiv (Tag ''div'')) (\<lambda>innerDiv.
            SetStyle innerDiv ''color'' ''#000000'' #
            forEach (querySelectorAll_in pg innerDiv (Tag ''span'')) (\<lambda>span.
              [SetStyle span ''color'' ''#000000'']) @
            forEach (querySelectorAll_in pg innerDiv (Tag ''strong'')) (\<lambda>strong.
              if css_get ''display'' (style (st pg strong)) = ''inline-block''
              then [SetStyle strong ''color'' ''#0066cc'']
              else []))) @
        forEach (querySelectorAll_in pg section (Tag ''strong'')) (\<lambda>strong.
          if str_includes (textContent pg strong) '':'' \<or> str_includes (textContent pg strong) ''AWS''
             \<or> str_includes (textContent pg strong) ''Azure'' \<or> str_includes (textContent pg strong) ''Collibra''
          then [SetStyle strong ''color'' ''#0066cc'']
          else [])
      else [])"

definition allSectionsForSkills :: "page \<Rightarrow> page" where
  "allSectionsForSkills pg =
     fold (\<lambda>section. run (skills_section_block section)) (querySelectorAll pg (Tag ''section'')) pg"

text \<open>Inline spans with colors: \<^verbatim>\<open>style && style.includes('color')\<close> on the attribute text.\<close>

definition coloredSpans_block :: "page \<Rightarrow> dom_write list" where
  "coloredSpans_block pg =
     forEach (querySelectorAll pg (TagStyleHas ''span'' ''color'')) (\<lambda>span.
       if style_attr (style (st pg span)) \<noteq> [] \<and> str_includes (style_attr (style (st pg span))) ''color''
       then [SetStyle span ''color'' ''#000000'']
       else [])"

definition profileImage_block :: "page \<Rightarrow> dom_write list" where
  "profileImage_block pg =
     (case querySelector pg (Cls ''profile-image'') of
        None \<Rightarrow> []
      | Some profileImage \<Rightarrow>
          [SetStyle profileImage ''width'' ''15%'',
           SetStyle profileImage ''height'' ''15%'',
           SetStyle profileImage ''margin-bottom'' ''20px'',
           SetStyle profileImage ''border-radius'' ''50%''])"

text \<open>Page break rules.\<close>

definition bodyOrphans_block :: "path \<Rightarrow> page \<Rightarrow> dom_write list" where
  "bodyOrphans_block body pg = [SetStyle body ''orphans'' ''3'', SetStyle body ''widows'' ''3'']"

definition sectionTitles_block :: "page \<Rightarrow> dom_write list" where
  "sectionTitles_block pg =
     forEach (querySelectorAll pg (Cls ''section-title'')) (\<lambda>title.
       [SetStyle title ''page-break-after'' ''avoid'',
        SetStyle title ''break-after'' ''avoid''])"

text \<open>
  What the company loop does once \<^verbatim>\<open>next\<close> carries the class \<^verbatim>\<open>company-content\<close>: the first
  project and, inside it, the project header and the first item of the project content.
\<close>

definition firstProject_writes :: "page \<Rightarrow> path \<Rightarrow> dom_write list" where
  "firstProject_writes pg next =
     (case querySelector_in pg next (TagFirstChild ''li'') of
        None \<Rightarrow> []
      | Some firstProject \<Rightarrow>
          [SetStyle firstProject ''page-break-before'' ''avoid'',
           SetStyle firstProject ''break-before'' ''avoid''] @
          (case querySelector_in pg firstProject (Cls ''collapsible-project'') of
             None \<Rightarrow> []
           | Some projectHeader \<Rightarrow>
               [SetStyle projectHeader ''page-break-after'' ''avoid'',
                SetStyle projectHeader ''break-after'' ''avoid''] @
               (case querySelector_in pg firstProject (Cls ''project-content'') of
                  None \<Rightarrow> []
                | Some projectContent \<Rightarrow>
                    (case querySelector_in pg projectContent (TagFirstChild ''li'') of
                       None \<Rightarrow> []
                     | Some firstContentItem \<Rightarrow>
                         [SetStyle firstContentItem ''page-break-before'' ''avoid'',
                          SetStyle firstContentItem ''break-before'' ''avoid'']))))"

text \<open>
  The loop \<^verbatim>\<open>while (next) { ...; next = next.nextElementSibling }\<close> of a company header, over
  the element siblings that follow it; it stops at the first one with class
  \<^verbatim>\<open>company-content\<close>.
\<close>

fun company_loop :: "page \<Rightarrow> path list \<Rightarrow> dom_write list" where
  "company_loop pg [] = []"
| "company_loop pg (next # rest) =
     (if tag_of pg next = ''p'' \<and> querySelector_in pg next (Tag ''em'') \<noteq> None
      then [SetStyle next ''page-break-after'' ''avoid'',
            SetStyle next ''break-after'' ''avoid'',
            SetStyle next ''margin-bottom'' ''5px'']
      else []) @
     (if ''company-content'' \<in> set (classes (st pg next))
      then firstProject_writes pg next
      else company_loop pg rest)"

definition companyHeaders_block :: "page \<Rightarrow> dom_write list" where
  "companyHeaders_block pg =
     forEach (querySelectorAll pg (Cls ''collapsible-company'')) (\<lambda>header.
       [SetStyle header ''page-break-after'' ''avoid'',
        SetStyle header ''break-after'' ''avoid''] @
       company_loop pg (next_siblings pg header))"

fun project_loop :: "page \<Rightarrow> path list \<Rightarrow> dom_write list" where
  "project_loop pg [] = []"
| "project_loop pg (next # rest) =
     (if ''project-content'' \<in> set (classes (st pg next))
      then
        [SetStyle next ''page-break-inside'' ''avoid'',
         SetStyle next ''break-inside'' ''avoid''] @
        (case querySelector_in pg next (TagFirstChild ''li'') of
           None \<Rightarrow> []
         | Some firstItem \<Rightarrow>
             [SetStyle firstItem ''page-break-before'' ''avoid'',
              SetStyle firstItem ''break-before'' ''avoid''])
      else project_loop pg rest)"

definition projectHeaders_block :: "page \<Rightarrow> dom_write list" where
  "projectHeaders_block pg =
     forEach (querySelectorAll pg (Cls ''collapsible-project'')) (\<lambda>header.
       [SetStyle header ''page-break-after'' ''avoid'',
        SetStyle header ''break-after'' ''avoid''] @
       project_loop pg (next_siblings pg header))"

definition listItems_block :: "page \<Rightarrow> dom_write list" where
  "listItems_block pg =
     forEach (querySelectorAll pg (Tag ''li'')) (\<lambda>li.
       if querySelector_in pg li (Cls ''collapsible-project'') \<noteq> None
       then [SetStyle li ''page-break-inside'' ''avoid'',
             SetStyle li ''break-inside'' ''avoid'']
       else [SetStyle li ''page-break-inside'' ''auto'',
             SetStyle li ''orphans'' ''3'',
             SetStyle li ''widows'' ''3''])"

definition allSections_block :: "page \<Rightarrow> dom_write list" where
  "allSections_block pg =
     forEach (querySelectorAll pg (Tag ''section'')) (\<lambda>section.
       [SetStyle section ''page-break-inside'' ''auto'',
        SetStyle section ''orphans'' ''4'',
        SetStyle section ''widows'' ''4''])"

text \<open>Expand collapsible content; hide the footer and the download button.\<close>

definition collapsibleContents_block :: "page \<Rightarrow> dom_write list" where
  "collapsibleContents_block pg =
     forEach (querySelectorAll pg
         (AnyOf [Cls ''section-content'', Cls ''company-content'', Cls ''project-content'', Cls ''skill-content'']))
       (\<lambda>content.
         [SetStyle content ''max-height'' ''none'',
          SetStyle content ''opacity'' ''1'',
          AddClass content ''expanded''])"

definition footer_block :: "page \<Rightarrow> dom_write list" where
  "footer_block pg =
     (case querySelector pg (Cls ''footer'') of
        None \<Rightarrow> []
      | Some footer \<Rightarrow> [SetStyle footer ''display'' ''none''])"

definition downloadButton_block :: "page \<Rightarrow> dom_write list" where
  "downloadButton_block pg =
     (case querySelector pg (Cls ''btn-download-pdf'') of
        None \<Rightarrow> []
      | Some downloadButton \<Rightarrow>
          SetStyle downloadButton ''display'' ''none'' #
          (case parentElement downloadButton of
             None \<Rightarrow> []
           | Some parent \<Rightarrow>
               if tag_of pg parent = ''p'' then [SetStyle parent ''display'' ''none''] else []))"

text \<open>Links, header border, images.\<close>

definition links_block :: "page \<Rightarrow> dom_write list" where
  "links_block pg =
     forEach (querySelectorAll pg (Tag ''a'')) (\<lambda>link. [SetStyle link ''color'' ''#0066cc''])"

definition headerBorder_block :: "page \<Rightarrow> dom_write list" where
  "headerBorder_block pg =
     (case querySelector pg (Tag ''header'') of
        None \<Rightarrow> []
      | Some header \<Rightarrow> [SetStyle header ''border-bottom-color'' ''#000000''])"

definition images_block :: "page \<Rightarrow> dom_write list" where
  "images_block pg =
     forEach (querySelectorAll pg (Tag ''img'')) (\<lambda>img.
       [SetStyle img ''max-width'' ''100%'',
        SetStyle img ''height'' ''auto''])"

text \<open>
  The statements of the script in their order, from the white background to the images, for
  a document whose \<^verbatim>\<open>document.body\<close> is \<open>body\<close>.
\<close>

definition restyle_steps :: "path \<Rightarrow> (page \<Rightarrow> page) list" where
  "restyle_steps body =
     [run (background_block body),
      run titles_block,
      run headers_block,
      run h4Elements_block,
      run h5Elements_block,
      run (bodyColor_block body),
      run leads_block,
      run paragraphs_block,
      run strongElements_block,
      run emElements_block,
      run smallElements_block,
      run listItemsForColor_block,
      run skillsSections_block,
      run skillCategories_block,
      allSectionsForSkills,
      run coloredSpans_block,
      run profileImage_block,
      run (bodyOrphans_block body),
      run sectionTitles_block,
      run companyHeaders_block,
      run projectHeaders_block,
      run listItems_block,
      run allSections_block,
      run collapsibleContents_block,
      run footer_block,
      run downloadButton_block,
      run links_block,
      run headerBorder_block,
      run images_block]"

definition in_order :: "(page \<Rightarrow> page) list \<Rightarrow> page \<Rightarrow> page" where
  "in_order steps pg = fold (\<lambda>step. step) steps pg"

text \<open>
  The whole script: the page it leaves and, when \<^verbatim>\<open>document.body\<close> is \<^verbatim>\<open>null\<close>, the TypeError
  that the first \<^verbatim>\<open>document.body.style\<close> throws, after the image loop has run.
\<close>

definition optimize :: "page \<Rightarrow> js_error option \<times> page" where
  "optimize pg =
     (let pg1 = run allImages_block pg in
      case document_body pg1 of
        None \<Rightarrow> (Some (TypeError ''Cannot read properties of null''), pg1)
      | Some body \<Rightarrow> (None, in_order (restyle_steps body) pg1))"

section \<open>PDFGenerator and convertToPDF (convertToPDF.js)\<close>

text \<open>
  Everything outside the script is a parameter of a run: the configuration file, the
  outcome of each call into Puppeteer and the file system (\<open>None\<close> when the call succeeds,
  the message of the error it throws otherwise), the page that a successful load leaves in
  the browser, and the time after which every image of that page is complete. The
  \<open>n\<close>-th call of \<^verbatim>\<open>browser.close()\<close> has its own outcome.
\<close>

record env =
  cfg_file :: config_file
  cfg_parse :: json_parser
  dirname :: string
  launch_fails :: "string option"
  newPage_fails :: "string option"
  setViewport_fails :: "string option"
  html_exists :: bool
  goto_fails :: "string option"
  readHtml_fails :: "string option"
  setContent_fails :: "string option"
  document :: page
  probe_fails :: "string option"
  images_done :: "nat option"
  to_number :: "json \<Rightarrow> rat option"
  waitForTimeout_fails :: "nat \<Rightarrow> string option"
  evaluate_fails :: "string option"
  pdf_fails :: "string option"
  close_fails :: "nat \<Rightarrow> string option"

text \<open>What a run does that can be observed, in order.\<close>

datatype event =
    ConsoleLog string
  | ConsoleWarn string
  | ConsoleError string
  | Invoke string
  | BrowserClose
  | WaitForFunction nat
  | Settled nat
  | ProcessExit nat

text \<open>
  The fields of a PDFGenerator: \<^verbatim>\<open>this.browser\<close> and \<^verbatim>\<open>this.page\<close> are \<^verbatim>\<open>null\<close> or set; \<open>dom\<close>
  is the page in the browser once content is loaded, and \<open>closes\<close> counts the calls of
  \<^verbatim>\<open>browser.close()\<close> made so far.
\<close>

record generator =
  config :: json
  browser :: bool
  page_open :: bool
  dom :: "page option"
  closes :: nat

type_synonym 'a outcome = "(js_error + 'a) \<times> generator \<times> event list"

subsection \<open>The getters of the script's PDFConfig\<close>

definition null_read :: "string \<Rightarrow> js_error" where
  "null_read k = TypeError (''Cannot read properties of null or undefined (reading '' @ k @ '')'')"

definition config_section :: "json \<Rightarrow> string \<Rightarrow> js_error + json option" where
  "config_section cfg k = (if cfg = JNull then Inl (null_read k) else Inr (prop_of cfg k))"

text \<open>Reading \<^verbatim>\<open>v.k\<close> where \<open>v\<close> may be \<^verbatim>\<open>undefined\<close> or \<^verbatim>\<open>null\<close>.\<close>

definition read_member :: "json option \<Rightarrow> string \<Rightarrow> js_error + json option" where
  "read_member v k =
     (case v of
        None \<Rightarrow> Inl (null_read k)
      | Some JNull \<Rightarrow> Inl (null_read k)
      | Some j \<Rightarrow> Inr (prop_of j k))"

definition getOutputPath :: "string \<Rightarrow> json \<Rightarrow> js_error + string" where
  "getOutputPath dir cfg =
     (case config_section cfg ''output'' of
        Inl e \<Rightarrow> Inl e
      | Inr output \<Rightarrow>
          (case read_member output ''filename'' of
             Inl e \<Rightarrow> Inl e
           | Inr (Some (JStr filename)) \<Rightarrow> Inr (dir @ ''/'' @ filename)
           | Inr other \<Rightarrow> Inl (TypeError ''The path argument must be of type string'')))"

text \<open>
  The number that \<^verbatim>\<open>after *= 1\<close> makes of the delay handed to a timer. A JSON number \<open>JNum n\<close>
  is the number of value \<open>n\<close>; \<^verbatim>\<open>null\<close> and \<^verbatim>\<open>false\<close> give 0, \<^verbatim>\<open>true\<close> gives 1, \<^verbatim>\<open>undefined\<close>
  gives \<^verbatim>\<open>NaN\<close>; what a string, an array or an object gives is the engine's, read from
  \<open>to_number\<close> (\<open>None\<close>: \<^verbatim>\<open>NaN\<close> or an infinity).
\<close>

definition ToNumber :: "env \<Rightarrow> json option \<Rightarrow> rat option" where
  "ToNumber e v =
     (case v of
        None \<Rightarrow> None
      | Some (JNum n) \<Rightarrow> Some n
      | Some JNull \<Rightarrow> Some 0
      | Some (JBool b) \<Rightarrow> Some (if b then 1 else 0)
      | Some j \<Rightarrow> to_number e j)"

text \<open>
  The delay, in milliseconds, of \<^verbatim>\<open>setTimeout(f, v)\<close>, which \<^verbatim>\<open>page.waitForTimeout(v)\<close> calls as well:
  \<^verbatim>\<open>if (!(after >= 1 && after <= TIMEOUT_MAX)) after = 1\<close> on the coerced value, with
  \<^verbatim>\<open>TIMEOUT_MAX = 2 ** 31 - 1\<close>, and the timer fires after the whole milliseconds of it.
\<close>

definition TIMEOUT_MAX :: rat where
  "TIMEOUT_MAX = 2147483647"

definition setTimeout_delay :: "env \<Rightarrow> json option \<Rightarrow> nat" where
  "setTimeout_delay e v =
     (case ToNumber e v of
        None \<Rightarrow> 1
      | Some after \<Rightarrow> (if 1 \<le> after \<and> after \<le> TIMEOUT_MAX then nat \<lfloor>after\<rfloor> else 1))"

subsection \<open>Promises of the image wait\<close>

datatype settled = Resolved nat | RejectedAt nat string

fun settle_time :: "settled \<Rightarrow> nat" where
  "settle_time (Resolved t) = t"
| "settle_time (RejectedAt t m) = t"

text \<open>
  \<^verbatim>\<open>page.waitForFunction(check, {timeout})\<close> where the check first holds \<open>done\<close> milliseconds
  after the call (\<open>None\<close>: never); \<^verbatim>\<open>.catch(() => null)\<close>; the timer promise; \<^verbatim>\<open>Promise.race\<close>
  of two promises.
\<close>

definition waitForFunction :: "nat \<Rightarrow> nat option \<Rightarrow> settled" where
  "waitForFunction timeout done =
     (case done of
        None \<Rightarrow> RejectedAt timeout ''TimeoutError''
      | Some t \<Rightarrow> (if t < timeout then Resolved t else RejectedAt timeout ''TimeoutError''))"

fun catch_null :: "settled \<Rightarrow> settled" where
  "catch_null (Resolved t) = Resolved t"
| "catch_null (RejectedAt t m) = Resolved t"

definition timer :: "nat \<Rightarrow> settled" where
  "timer ms = Resolved ms"

definition promise_race :: "settled \<Rightarrow> settled \<Rightarrow> settled" where
  "promise_race a b = (if settle_time a \<le> settle_time b then a else b)"

subsection \<open>PDFGenerator\<close>

definition WARNING_FILE_URL :: string where
  "WARNING_FILE_URL = ''file:// URL failed, trying setContent method...''"

definition WARNING_IMAGES :: string where
  "WARNING_IMAGES = ''Some images may not have loaded, continuing with PDF generation...''"

definition new_generator :: "json \<Rightarrow> generator" where
  "new_generator cfg = \<lparr>config = cfg, browser = False, page_open = False, dom = None, closes = 0\<rparr>"

definition initialize_body :: "env \<Rightarrow> generator \<Rightarrow> unit outcome" where
  "initialize_body e g =
     (case launch_fails e of
        Some m \<Rightarrow> (Inl (JsError m), g, [])
      | None \<Rightarrow>
          (let g1 = g\<lparr>browser := True\<rparr> in
           case newPage_fails e of
             Some m \<Rightarrow> (Inl (JsError m), g1, [])
           | None \<Rightarrow>
               (let g2 = g1\<lparr>page_open := True\<rparr> in
                case config_section (config g2) ''viewport'' of
                  Inl err \<Rightarrow> (Inl err, g2, [])
                | Inr viewport \<Rightarrow>
                    (case setViewport_fails e of
                       Some m \<Rightarrow> (Inl (JsError m), g2, [])
                     | None \<Rightarrow> (Inr (), g2, [])))))"

text \<open>A method body inside \<^verbatim>\<open>try { ... } catch (error) { throw new Error(prefix + error.message) }\<close>.\<close>

definition rethrow :: "string \<Rightarrow> 'a outcome \<Rightarrow> 'a outcome" where
  "rethrow pre r =
     (case r of
        (Inl err, g, evs) \<Rightarrow> (Inl (JsError (pre @ error_message err)), g, evs)
      | (Inr v, g, evs) \<Rightarrow> (Inr v, g, evs))"

definition initialize :: "env \<Rightarrow> generator \<Rightarrow> unit outcome" where
  "initialize e g = rethrow ''Failed to initialize browser: '' (initialize_body e g)"

text \<open>
  The \<^verbatim>\<open>catch (imgError)\<close> branch of the image wait: a warning and one more
  \<^verbatim>\<open>waitForTimeout\<close>, the second of the method.
\<close>

definition image_wait_catch :: "env \<Rightarrow> generator \<Rightarrow> json option \<Rightarrow> unit outcome" where
  "image_wait_catch e g imageRender =
     (case waitForTimeout_fails e 1 of
        None \<Rightarrow> (Inr (), g, [ConsoleWarn WARNING_IMAGES, Settled (setTimeout_delay e imageRender)])
      | Some m \<Rightarrow> (Inl (JsError m), g, [ConsoleWarn WARNING_IMAGES]))"

text \<open>
  The wait for images, once the content is in the page: the probe for \<^verbatim>\<open>img\<close> elements,
  then the race of the polled check (timeout 15000, rejection swallowed) against the timer,
  or \<^verbatim>\<open>waitForTimeout\<close> when there is no image.
\<close>

definition image_wait :: "env \<Rightarrow> generator \<Rightarrow> json option \<Rightarrow> unit outcome" where
  "image_wait e g imageRender =
     (case probe_fails e of
        Some m \<Rightarrow> image_wait_catch e g imageRender
      | None \<Rightarrow>
          (let hasImages = (length (querySelectorAll (document e) (Tag ''img'')) > 0) in
           if hasImages
           then
             (case promise_race (catch_null (waitForFunction 15000 (images_done e)))
                     (timer (setTimeout_delay e imageRender)) of
                Resolved t \<Rightarrow> (Inr (), g, [WaitForFunction 15000, Settled t])
              | RejectedAt t m \<Rightarrow>
                  (case image_wait_catch e g imageRender of
                     (r, g', evs) \<Rightarrow> (r, g', WaitForFunction 15000 # evs)))
           else
             (case waitForTimeout_fails e 0 of
                None \<Rightarrow> (Inr (), g, [Settled (setTimeout_delay e imageRender)])
              | Some m \<Rightarrow> image_wait_catch e g imageRender)))"

text \<open>
  Navigation: \<^verbatim>\<open>page.goto\<close> inside its \<^verbatim>\<open>try\<close>, where reading \<^verbatim>\<open>timeouts.pageLoad\<close> can throw
  as well; the \<^verbatim>\<open>catch\<close> warns, reads the file and calls \<^verbatim>\<open>page.setContent\<close>.
\<close>

definition navigate :: "env \<Rightarrow> generator \<Rightarrow> json option \<Rightarrow> unit outcome" where
  "navigate e g timeouts =
     (let gotoError =
        (case read_member timeouts ''pageLoad'' of
           Inl err \<Rightarrow> Some err
         | Inr pageLoad \<Rightarrow> map_option JsError (goto_fails e)) in
      case gotoError of
        None \<Rightarrow> (Inr (), g\<lparr>dom := Some (document e)\<rparr>, [])
      | Some err \<Rightarrow>
          (case readHtml_fails e of
             Some m \<Rightarrow> (Inl (FsError m), g, [ConsoleWarn WARNING_FILE_URL])
           | None \<Rightarrow>
               (case read_member timeouts ''pageLoad'' of
                  Inl err' \<Rightarrow> (Inl err', g, [ConsoleWarn WARNING_FILE_URL])
                | Inr pageLoad \<Rightarrow>
                    (case setContent_fails e of
                       Some m \<Rightarrow> (Inl (JsError m), g, [ConsoleWarn WARNING_FILE_URL])
                     | None \<Rightarrow>
                         (Inr (), g\<lparr>dom := Some (document e)\<rparr>, [ConsoleWarn WARNING_FILE_URL])))))"

definition loadContent_body :: "env \<Rightarrow> generator \<Rightarrow> string \<Rightarrow> unit outcome" where
  "loadContent_body e g htmlPath =
     (if \<not> html_exists e
      then (Inl (JsError (''HTML file not found: '' @ dirname e @ ''/'' @ htmlPath)), g, [])
      else
        (case config_section (config g) ''timeouts'' of
           Inl err \<Rightarrow> (Inl err, g, [])
         | Inr timeouts \<Rightarrow>
             (case navigate e g timeouts of
                (Inl err, g1, evs) \<Rightarrow> (Inl err, g1, evs)
              | (Inr u, g1, evs) \<Rightarrow>
                  (case image_wait e g1 (prop_opt timeouts ''imageRender'') of
                     (r, g2, evs') \<Rightarrow> (r, g2, evs @ evs')))))"

definition loadContent :: "env \<Rightarrow> generator \<Rightarrow> string \<Rightarrow> unit outcome" where
  "loadContent e g htmlPath = rethrow ''Failed to load content: '' (loadContent_body e g htmlPath)"

text \<open>
  \<^verbatim>\<open>page.evaluate\<close> of the script: the call itself can fail, and an exception of the script
  comes back as the failure of the call, the page keeping what the script had done.
\<close>

definition applyOptimizations_body :: "env \<Rightarrow> generator \<Rightarrow> unit outcome" where
  "applyOptimizations_body e g =
     (case evaluate_fails e of
        Some m \<Rightarrow> (Inl (JsError m), g, [])
      | None \<Rightarrow>
          (case dom g of
             None \<Rightarrow> (Inl (JsError ''no document''), g, [])
           | Some pg \<Rightarrow>
               (case optimize pg of
                  (Some err, pg') \<Rightarrow> (Inl err, g\<lparr>dom := Some pg'\<rparr>, [])
                | (None, pg') \<Rightarrow> (Inr (), g\<lparr>dom := Some pg'\<rparr>, []))))"

definition applyOptimizations :: "env \<Rightarrow> generator \<Rightarrow> unit outcome" where
  "applyOptimizations e g = rethrow ''Failed to apply optimizations: '' (applyOptimizations_body e g)"

definition generatePDF_body :: "env \<Rightarrow> generator \<Rightarrow> string outcome" where
  "generatePDF_body e g =
     (case getOutputPath (dirname e) (config g) of
        Inl err \<Rightarrow> (Inl err, g, [])
      | Inr outputPath \<Rightarrow>
          (case config_section (config g) ''pdf'' of
             Inl err \<Rightarrow> (Inl err, g, [])
           | Inr pdfOptions \<Rightarrow>
               (case pdf_fails e of
                  Some m \<Rightarrow> (Inl (JsError m), g, [])
                | None \<Rightarrow> (Inr outputPath, g, []))))"

definition generatePDF :: "env \<Rightarrow> generator \<Rightarrow> string outcome" where
  "generatePDF e g = rethrow ''Failed to generate PDF: '' (generatePDF_body e g)"

text \<open>\<^verbatim>\<open>cleanup\<close>: \<^verbatim>\<open>if (this.browser) { await this.browser.close(); }\<close>, with no \<^verbatim>\<open>try\<close> around it.\<close>

definition cleanup :: "env \<Rightarrow> generator \<Rightarrow> unit outcome" where
  "cleanup e g =
     (if browser g
      then
        (case close_fails e (closes g) of
           None \<Rightarrow> (Inr (), g\<lparr>closes := Suc (closes g)\<rparr>, [BrowserClose])
         | Some m \<Rightarrow> (Inl (JsError m), g\<lparr>closes := Suc (closes g)\<rparr>, [BrowserClose]))
      else (Inr (), g, []))"

subsection \<open>convertToPDF\<close>

text \<open>
  How a run ends: the function returns the output path, the process exits through
  \<^verbatim>\<open>process.exit\<close>, or the promise of \<^verbatim>\<open>convertToPDF()\<close> is rejected with nobody to catch it.
\<close>

datatype run_end = Returned string | Exited nat | Unhandled js_error

datatype stage = Initialization | ContentLoad | Transformation | Capture | Cleanup

text \<open>
  The \<^verbatim>\<open>try\<close> block: the stage that threw with its error, or the output path, and the events
  up to there. Every call of a method of the generator is recorded by \<open>Invoke\<close>.
\<close>

definition try_block :: "env \<Rightarrow> generator \<Rightarrow> ((stage \<times> js_error) + string) \<times> generator \<times> event list" where
  "try_block e g0 =
     (let evs0 = [ConsoleLog ''Starting PDF conversion...'', Invoke ''initialize''] in
      case initialize e g0 of
        (Inl err, g1, ev1) \<Rightarrow> (Inl (Initialization, err), g1, evs0 @ ev1)
      | (Inr u1, g1, ev1) \<Rightarrow>
     (let evs1 = evs0 @ ev1 @ [ConsoleLog ''Browser initialized'', Invoke ''loadContent''] in
      case loadContent e g1 ''index.html'' of
        (Inl err, g2, ev2) \<Rightarrow> (Inl (ContentLoad, err), g2, evs1 @ ev2)
      | (Inr u2, g2, ev2) \<Rightarrow>
     (let evs2 = evs1 @ ev2 @ [ConsoleLog ''HTML content loaded'', Invoke ''applyOptimizations''] in
      case applyOptimizations e g2 of
        (Inl err, g3, ev3) \<Rightarrow> (Inl (Transformation, err), g3, evs2 @ ev3)
      | (Inr u3, g3, ev3) \<Rightarrow>
     (let evs3 = evs2 @ ev3 @ [ConsoleLog ''PDF optimizations applied'', Invoke ''generatePDF''] in
      case generatePDF e g3 of
        (Inl err, g4, ev4) \<Rightarrow> (Inl (Capture, err), g4, evs3 @ ev4)
      | (Inr outputPath, g4, ev4) \<Rightarrow>
     (let evs4 = evs3 @ ev4 @ [ConsoleLog (''PDF generated successfully: '' @ outputPath), Invoke ''cleanup''] in
      case cleanup e g4 of
        (Inl err, g5, ev5) \<Rightarrow> (Inl (Cleanup, err), g5, evs4 @ ev5)
      | (Inr u5, g5, ev5) \<Rightarrow>
          (Inr outputPath, g5, evs4 @ ev5 @ [ConsoleLog ''Conversion completed successfully!'']))))))"

text \<open>
  The \<^verbatim>\<open>catch\<close> block: \<^verbatim>\<open>console.error\<close>, \<^verbatim>\<open>cleanup\<close>, \<^verbatim>\<open>process.exit(1)\<close>; an error thrown by
  this \<^verbatim>\<open>cleanup\<close> rejects the promise before \<^verbatim>\<open>process.exit\<close> is reached.
\<close>

definition catch_block :: "env \<Rightarrow> generator \<Rightarrow> js_error \<Rightarrow> run_end \<times> generator \<times> event list" where
  "catch_block e g err =
     (let evs = [ConsoleError (''Error during PDF conversion: '' @ error_message err), Invoke ''cleanup''] in
      case cleanup e g of
        (Inl err', g', ev) \<Rightarrow> (Unhandled err', g', evs @ ev)
      | (Inr u, g', ev) \<Rightarrow> (Exited 1, g', evs @ ev @ [ProcessExit 1]))"

definition convertToPDF :: "env \<Rightarrow> run_end \<times> generator \<times> event list" where
  "convertToPDF e =
     (case inline_loadConfig (cfg_parse e) (dirname e @ ''/pdf-config.json'') (cfg_file e) of
        (cfg, warnings) \<Rightarrow>
          (case try_block e (new_generator cfg) of
             (Inr outputPath, g, evs) \<Rightarrow> (Returned outputPath, g, map ConsoleWarn warnings @ evs)
           | (Inl (failed, err), g, evs) \<Rightarrow>
               (case catch_block e g err of
                  (end, g', evs') \<Rightarrow> (end, g', map ConsoleWarn warnings @ evs @ evs'))))"

text \<open>The stage that failed in a run, if one did.\<close>

definition failed_stage :: "env \<Rightarrow> stage option" where
  "failed_stage e =
     (case inline_loadConfig (cfg_parse e) (dirname e @ ''/pdf-config.json'') (cfg_file e) of
        (cfg, warnings) \<Rightarrow>
          (case try_block e (new_generator cfg) of
             (Inr outputPath, g, evs) \<Rightarrow> None
           | (Inl (failed, err), g, evs) \<Rightarrow> Some failed))"

definition cleanup_calls :: "event list \<Rightarrow> nat" where
  "cleanup_calls evs = length (filter (\<lambda>ev. ev = Invoke ''cleanup'') evs)"

text \<open>\<open>before a b evs\<close>: every occurrence of \<open>b\<close> in the trace has an \<open>a\<close> somewhere before it.\<close>

fun before :: "event \<Rightarrow> event \<Rightarrow> event list \<Rightarrow> bool" where
  "before a b [] = True"
| "before a b (ev # evs) = (if ev = a then True else if ev = b then False else before a b evs)"


section \<open>Example pages and notions used in the proofs\<close>

definition blank :: estate where
  "blank = \<lparr>classes = [], style = [], src = []\<rparr>"


definition cv_header_page :: page where
  "cv_header_page =
     \<lparr>tree = Element ''html'' [Element ''body''
        [Element ''header'' [Element ''img'' [], Element ''h1'' [TextNode ''Gueulette Arnaud'']]]],
      st = (\<lambda>p. blank)
        ([0, 0, 0] := \<lparr>classes = [''profile-image''], style = [],
                       src = ''https://arnauudg.github.io/asset/profile-picture.jpeg''\<rparr>)\<rparr>"

fun is_SetSrc :: "dom_write \<Rightarrow> bool" where
  "is_SetSrc (SetSrc el v) = True"
| "is_SetSrc w = False"

definition no_src :: "dom_write list \<Rightarrow> bool" where
  "no_src ws = list_all (\<lambda>w. \<not> is_SetSrc w) ws"

definition keeps_src :: "(page \<Rightarrow> page) \<Rightarrow> bool" where
  "keeps_src f = (\<forall>pg. tree (f pg) = tree pg \<and> (\<forall>p. src (st (f pg) p) = src (st pg p)))"

definition img_page :: page where
  "img_page =
     \<lparr>tree = Element ''html'' [Element ''body'' [Element ''img'' []]],
      st = (\<lambda>p. blank)([0, 0] := blank\<lparr>src := ''photo.png''\<rparr>)\<rparr>"

definition text_page :: page where
  "text_page =
     \<lparr>tree = Element ''html'' [Element ''body'' [Element ''p'' [TextNode ''Hello'']]],
      st = (\<lambda>p. blank)\<rparr>"

text \<open>
  A run in which every call succeeds: no configuration file, a document with one image
  that never completes. Of the strings, arrays and objects, only \<^verbatim>\<open>'300'\<close> is coerced to a
  number in the runs below.
\<close>

definition happy_env :: env where
  "happy_env =
     \<lparr>cfg_file = Absent, cfg_parse = literal_parse, dirname = ''/cv'',
      launch_fails = None, newPage_fails = None, setViewport_fails = None,
      html_exists = True, goto_fails = None, readHtml_fails = None, setContent_fails = None,
      document = img_page, probe_fails = None, images_done = None,
      to_number = (\<lambda>j. if j = JStr ''300'' then Some 300 else None),
      waitForTimeout_fails = (\<lambda>n. None), evaluate_fails = None, pdf_fails = None,
      close_fails = (\<lambda>n. None)\<rparr>"

definition load_failing_env :: env where
  "load_failing_env =
     happy_env\<lparr>goto_fails := Some ''net::ERR_FILE_NOT_FOUND'',
                setContent_fails := Some ''Navigation timeout''\<rparr>"

definition close_failing_env :: env where
  "close_failing_env =
     happy_env\<lparr>close_fails :=
       (\<lambda>n. if n = 0 then Some ''Protocol error: Connection closed'' else None)\<rparr>"

definition launched :: generator where
  "launched = (new_generator inline_getDefaultConfig)\<lparr>browser := True, page_open := True\<rparr>"

text \<open>
  A \<^verbatim>\<open>pdf-config.json\<close> that sets \<^verbatim>\<open>timeouts.imageRender\<close>, what \<^verbatim>\<open>JSON.parse\<close> makes of it, a
  parser that knows the two files used below, a run that finds such a file, and the
  generator after \<^verbatim>\<open>initialize\<close> with that configuration.
\<close>

definition config_text :: "string \<Rightarrow> string" where
  \<open>config_text imageRender =
     ''{"viewport": {"width": 1200, "height": 1600, "deviceScaleFactor": 2}, '' @
     ''"timeouts": {"pageLoad": 30000, "imageRender": '' @ imageRender @ ''}, '' @
     ''"output": {"filename": "CV.pdf"}}''\<close>

definition configured :: "json \<Rightarrow> json" where
  "configured imageRender = JObj
    [(''viewport'', JObj
        [(''width'', JNum 1200),
         (''height'', JNum 1600),
         (''deviceScaleFactor'', JNum 2)]),
     (''timeouts'', JObj
        [(''pageLoad'', JNum 30000),
         (''imageRender'', imageRender)]),
     (''output'', JObj
        [(''filename'', JStr ''CV.pdf'')])]"

definition config_parse :: json_parser where
  "config_parse s =
     (if s = config_text ''2500'' then Inr (configured (JNum 2500))
      else if s = config_text ''3000000000'' then Inr (configured (JNum 3000000000))
      else literal_parse s)"

definition configured_env :: "string \<Rightarrow> env" where
  "configured_env imageRender =
     happy_env\<lparr>cfg_file := Present (config_text imageRender), cfg_parse := config_parse\<rparr>"

definition started :: "json \<Rightarrow> generator" where
  "started cfg = (new_generator cfg)\<lparr>browser := True, page_open := True\<rparr>"

definition quiet :: "event list \<Rightarrow> bool" where
  "quiet evs = (cleanup_calls evs = 0 \<and> ProcessExit 1 \<notin> set evs)"

section \<open>Notions used for running the script twice\<close>

subsection \<open>The hypotheses on the page and the example pages\<close>







subsection \<open>Inline styles and image references under repeated writes\<close>


definition set_all :: "decls \<Rightarrow> decls \<Rightarrow> decls" where
  "set_all kvs ds = fold (\<lambda>kv. css_set (fst kv) (snd kv)) kvs ds"



subsection \<open>Writes, element by element\<close>

text \<open>
  The element a write goes to, its effect on the state of that element, and the property
  writes and class tokens that a list of writes holds for one element.
\<close>

fun target :: "dom_write \<Rightarrow> path" where
  "target (SetStyle el k v) = el"
| "target (AddClass el c) = el"
| "target (SetSrc el v) = el"

definition add_cls :: "string \<Rightarrow> string list \<Rightarrow> string list" where
  "add_cls c cl = (if c \<in> set cl then cl else cl @ [c])"

fun elem_op :: "dom_write \<Rightarrow> estate \<Rightarrow> estate" where
  "elem_op (SetStyle el k v) e = e\<lparr>style := css_set k v (style e)\<rparr>"
| "elem_op (AddClass el c) e = e\<lparr>classes := add_cls c (classes e)\<rparr>"
| "elem_op (SetSrc el v) e = e\<lparr>src := v\<rparr>"



definition writes_at :: "path \<Rightarrow> dom_write list \<Rightarrow> dom_write list" where
  "writes_at p ws = filter (\<lambda>w. target w = p) ws"



subsection \<open>What the script reads and what it may write\<close>













section \<open>Properties of the configuration code\<close>

lemma deep_clone_id: "deep_clone v = v"
proof (induction v)
  case (JArr xs)
  then show ?case by (simp add: map_idI)
next
  case (JObj kvs)
  have "map (\<lambda>p. (fst p, deep_clone (snd p))) kvs = kvs"
  proof (rule map_idI)
    fix p assume pin: "p \<in> set kvs"
    obtain k v where pkv: "p = (k, v)" by (cases p)
    have "deep_clone v = v" using JObj.IH [of p v] pin pkv by simp
    then show "(fst p, deep_clone (snd p)) = p" using pkv by simp
  qed
  then show ?case by simp
qed simp_all

lemma getDefaultConfig_eq: "getDefaultConfig = JObj DEFAULT_CONFIG"
  by (simp add: getDefaultConfig_def deep_clone_id)

lemma map_of_set_prop_same: "map_of (set_prop k v ps) k = Some v"
  by (induction ps) auto

lemma map_of_set_prop_other: "k' \<noteq> k \<Longrightarrow> map_of (set_prop k v ps) k' = map_of ps k'"
  by (induction ps) auto

text \<open>
  Whatever the defaults are, a user document that sets only \<^verbatim>\<open>pdf.margin.top\<close> ends with a
  margin object that holds \<^verbatim>\<open>top\<close> alone: \<^verbatim>\<open>merged.pdf = {...merged.pdf, ...userConfig.pdf}\<close>
  has already replaced the default margin by the user's when the margin spread reads
  \<^verbatim>\<open>merged.pdf.margin\<close>.
\<close>

lemma mergeWithDefaults_margin_replaced:
  "lookup_path (case mergeWithDefaults (top_only ''20mm'') defaultConfig of
                  Inl e \<Rightarrow> None | Inr m \<Rightarrow> Some m) [''pdf'', ''margin''] =
     Some (JObj [(''top'', JStr ''20mm'')])"
  by (simp add: top_only_def mergeWithDefaults_def merge_pdf_def merge_section_def spread2_def
      map_of_set_prop_same map_of_set_prop_other Let_def)

text \<open>
  Claim C4 (margin sides merge field by field over the defaults), evaluated on the code:
  the valid settings document \<^verbatim>\<open>{"pdf": {"margin": {"top": "20mm"}}}\<close> merged over
  \<open>DEFAULT_CONFIG\<close> yields the defaults (under their upper-case keys) followed by the
  user's \<^verbatim>\<open>pdf\<close> section as it stands; in the result \<^verbatim>\<open>pdf.margin.top\<close> is the user's value
  and \<^verbatim>\<open>pdf.margin.bottom\<close>, \<^verbatim>\<open>left\<close> and \<^verbatim>\<open>right\<close> are undefined.
\<close>

theorem mergeWithDefaults_top_only_loses_sides:
  "validateConfig (top_only ''20mm'') = None
   \<and> mergeWithDefaults (top_only ''20mm'') DEFAULT_CONFIG = Inr (JObj (DEFAULT_CONFIG @ own_props (Some (top_only ''20mm''))))
   \<and> lookup_path (Some (JObj (DEFAULT_CONFIG @ own_props (Some (top_only ''20mm''))))) [''pdf'', ''margin'', ''top''] = Some (JStr ''20mm'')
   \<and> lookup_path (Some (JObj (DEFAULT_CONFIG @ own_props (Some (top_only ''20mm''))))) [''pdf'', ''margin'', ''bottom''] = None
   \<and> lookup_path (Some (JObj (DEFAULT_CONFIG @ own_props (Some (top_only ''20mm''))))) [''pdf'', ''margin'', ''left''] = None
   \<and> lookup_path (Some (JObj (DEFAULT_CONFIG @ own_props (Some (top_only ''20mm''))))) [''pdf'', ''margin'', ''right''] = None"
  by (simp add: top_only_def validateConfig_def validatePDFConfig_def validateMargin_def first_error_def not_object_def
      mergeWithDefaults_def merge_pdf_def merge_section_def spread2_def deep_clone_id DEFAULT_CONFIG_def)

text \<open>
  Claim C5, as amended: when the configuration file exists and \<^verbatim>\<open>JSON.parse\<close> rejects its
  text, \<^verbatim>\<open>PDFConfig.loadConfig\<close> of src/config/PDFConfig.js throws a ConfigurationError that
  wraps the SyntaxError (it is not a ValidationError, and no default is returned), while the
  PDFConfig class inside convertToPDF.js, the one \<^verbatim>\<open>convertToPDF()\<close> uses, warns
  and returns its defaults.
\<close>

theorem loadConfig_malformed_json:
  assumes "parse content = Inl m"
  shows "loadConfig parse configPath (Present content) =
           (Inl (ConfigurationError (''Invalid JSON in configuration file: '' @ m) (SyntaxError m)), [])
       \<and> isConfigurationError (ConfigurationError (''Invalid JSON in configuration file: '' @ m) (SyntaxError m))
       \<and> \<not> isValidationError (ConfigurationError (''Invalid JSON in configuration file: '' @ m) (SyntaxError m))
       \<and> inline_loadConfig parse configPath (Present content) = (inline_getDefaultConfig, [inline_warning configPath])"
  using assms by (simp add: loadConfig_def loadConfig_catch_def inline_loadConfig_def)

theorem loadConfig_malformed_json_witness:
  "literal_parse ''{'' = Inl ''Unexpected end of JSON input''
   \<and> loadConfig literal_parse ''pdf-config.json'' (Present ''{'') =
           (Inl (ConfigurationError ''Invalid JSON in configuration file: Unexpected end of JSON input''
                   (SyntaxError ''Unexpected end of JSON input'')), [])
   \<and> inline_loadConfig literal_parse ''pdf-config.json'' (Present ''{'') =
           (inline_getDefaultConfig, [inline_warning ''pdf-config.json''])"
proof -
  have h: "literal_parse ''{'' = Inl ''Unexpected end of JSON input''"
    by (simp add: literal_parse_def)
  show ?thesis
    using h loadConfig_malformed_json
      [of literal_parse "''{''" "''Unexpected end of JSON input''" "''pdf-config.json''"]
    by simp
qed

text \<open>
  Claim C5 as stated fails on the loader of the conversion script: for the file text
  \<^verbatim>\<open>{\<close>, which is not JSON, it returns the defaults with a warning and throws nothing.
\<close>

theorem inline_loadConfig_malformed_counterexample:
  "literal_parse ''{'' = Inl ''Unexpected end of JSON input''
   \<and> inline_loadConfig literal_parse ''pdf-config.json'' (Present ''{'') =
        (inline_getDefaultConfig, [''Warning: Could not load config from pdf-config.json, using defaults''])"
  by (simp add: literal_parse_def inline_loadConfig_def inline_warning_def)

text \<open>
  Claim C6: when no file exists at the configured path, \<^verbatim>\<open>loadConfig\<close> throws nothing; it
  calls \<^verbatim>\<open>logger.warn\<close> once (a call the logger prints at its default threshold INFO) and
  returns a deep copy of \<open>DEFAULT_CONFIG\<close>, equal to it.
\<close>

theorem loadConfig_missing_file:
  "loadConfig parse configPath Absent = (Inr (JObj DEFAULT_CONFIG), [fallback_warning configPath])
   \<and> fst (fallback_warning configPath) = WARN
   \<and> printed (LOG_LEVELS INFO) (snd (loadConfig parse configPath Absent)) = [fallback_warning configPath]"
  by (simp add: loadConfig_def getDefaultConfig_eq fallback_warning_def printed_def)

section \<open>Properties of the in-page script: image references\<close>

lemma do_writes_Nil [simp]: "do_writes [] pg = pg"
  by (simp add: do_writes_def)

lemma do_writes_Cons [simp]: "do_writes (w # ws) pg = do_writes ws (do_write w pg)"
  by (simp add: do_writes_def)

lemma do_writes_append [simp]: "do_writes (ws @ ws') pg = do_writes ws' (do_writes ws pg)"
  by (simp add: do_writes_def)

lemma forEach_Nil [simp]: "forEach [] body = []"
  by (simp add: forEach_def)

lemma forEach_Cons [simp]: "forEach (x # xs) body = body x @ forEach xs body"
  by (simp add: forEach_def)


lemma tree_do_write [simp]: "tree (do_write w pg) = tree pg"
  by (cases w) (simp_all add: upd_elem_def)

lemma tree_do_writes [simp]: "tree (do_writes ws pg) = tree pg"
  by (induction ws arbitrary: pg) simp_all

lemma no_src_simps [simp]:
  "no_src []"
  "no_src (w # ws) = (\<not> is_SetSrc w \<and> no_src ws)"
  "no_src (ws @ ws') = (no_src ws \<and> no_src ws')"
  by (simp_all add: no_src_def)

lemma no_src_forEach [simp]: "no_src (forEach xs body) = (\<forall>x\<in>set xs. no_src (body x))"
  by (induction xs) simp_all

lemma src_do_write: "\<not> is_SetSrc w \<Longrightarrow> src (st (do_write w pg) p) = src (st pg p)"
  by (cases w) (simp_all add: upd_elem_def)

lemma src_do_writes: "no_src ws \<Longrightarrow> src (st (do_writes ws pg) p) = src (st pg p)"
  by (induction ws arbitrary: pg) (simp_all add: src_do_write)

lemma keeps_src_run: "(\<And>pg. no_src (block pg)) \<Longrightarrow> keeps_src (run block)"
  by (simp add: keeps_src_def run_def src_do_writes)

lemma keeps_src_fold:
  "(\<And>x. x \<in> set xs \<Longrightarrow> keeps_src (f x)) \<Longrightarrow> keeps_src (\<lambda>pg. fold f xs pg)"
proof (induction xs)
  case Nil
  show ?case by (simp add: keeps_src_def)
next
  case (Cons x xs)
  have a: "keeps_src (f x)" using Cons.prems by simp
  have b: "keeps_src (\<lambda>pg. fold f xs pg)" using Cons by simp
  show ?case using a b by (simp add: keeps_src_def)
qed

lemma company_loop_no_src: "no_src (company_loop pg sibs)"
  by (induction sibs) (simp_all add: firstProject_writes_def split: option.splits)

lemma project_loop_no_src: "no_src (project_loop pg sibs)"
  by (induction sibs) (simp_all split: option.splits)

lemma blocks_no_src:
  "no_src (background_block body pg)"
  "no_src (titles_block pg)"
  "no_src (headers_block pg)"
  "no_src (h4Elements_block pg)"
  "no_src (h5Elements_block pg)"
  "no_src (bodyColor_block body pg)"
  "no_src (leads_block pg)"
  "no_src (paragraphs_block pg)"
  "no_src (strongElements_block pg)"
  "no_src (emElements_block pg)"
  "no_src (smallElements_block pg)"
  "no_src (listItemsForColor_block pg)"
  "no_src (skillsSections_block pg)"
  "no_src (skillCategories_block pg)"
  "no_src (skills_section_block section pg)"
  "no_src (coloredSpans_block pg)"
  "no_src (profileImage_block pg)"
  "no_src (bodyOrphans_block body pg)"
  "no_src (sectionTitles_block pg)"
  "no_src (companyHeaders_block pg)"
  "no_src (projectHeaders_block pg)"
  "no_src (listItems_block pg)"
  "no_src (allSections_block pg)"
  "no_src (collapsibleContents_block pg)"
  "no_src (footer_block pg)"
  "no_src (downloadButton_block pg)"
  "no_src (links_block pg)"
  "no_src (headerBorder_block pg)"
  "no_src (images_block pg)"
  by (simp_all add: background_block_def titles_block_def headers_block_def h4Elements_block_def
      h5Elements_block_def bodyColor_block_def leads_block_def paragraphs_block_def
      strongElements_block_def emElements_block_def smallElements_block_def
      listItemsForColor_block_def skillsSections_block_def skillCategories_block_def
      skills_section_block_def coloredSpans_block_def profileImage_block_def bodyOrphans_block_def
      sectionTitles_block_def companyHeaders_block_def projectHeaders_block_def listItems_block_def
      allSections_block_def collapsibleContents_block_def footer_block_def downloadButton_block_def
      links_block_def headerBorder_block_def images_block_def
      company_loop_no_src project_loop_no_src split: option.splits)

lemma keeps_src_allSectionsForSkills: "keeps_src allSectionsForSkills"
proof -
  have "\<And>secs. keeps_src (\<lambda>pg. fold (\<lambda>section. run (skills_section_block section)) secs pg)"
    by (rule keeps_src_fold) (simp add: keeps_src_run blocks_no_src)
  then show ?thesis
    by (simp add: keeps_src_def allSectionsForSkills_def)
qed

lemma keeps_src_restyle_steps: "step \<in> set (restyle_steps body) \<Longrightarrow> keeps_src step"
  by (auto simp: restyle_steps_def keeps_src_run blocks_no_src keeps_src_allSectionsForSkills)

lemma keeps_src_in_order: "keeps_src (in_order (restyle_steps body))"
proof -
  have "keeps_src (\<lambda>pg. fold (\<lambda>step. step) (restyle_steps body) pg)"
    by (rule keeps_src_fold) (rule keeps_src_restyle_steps)
  then show ?thesis by (simp add: in_order_def keeps_src_def)
qed

lemma st_forEach_SetSrc:
  "st (do_writes (forEach xs (\<lambda>x. if c x then [SetSrc x (g x)] else [])) pg) p =
     (if p \<in> set xs \<and> c p then (st pg p)\<lparr>src := g p\<rparr> else st pg p)"
  by (induction xs arbitrary: pg) (auto simp: upd_elem_def)

lemma st_allImages:
  "st (run allImages_block pg) p =
     (if p \<in> set (querySelectorAll pg (Tag ''img'')) \<and> src (st pg p) \<noteq> [] \<and>
         str_includes (src (st pg p)) HOSTED_ASSETS
      then (st pg p)\<lparr>src := relative_asset (split_second ''/assets/'' (src (st pg p)))\<rparr>
      else st pg p)"
  unfolding run_def allImages_block_def by (rule st_forEach_SetSrc)



lemma src_optimize: "src (st (snd (optimize pg)) p) = src (st (run allImages_block pg) p)"
  using keeps_src_in_order
  by (auto simp: optimize_def Let_def keeps_src_def split: option.splits)





text \<open>
  Claim C10: the rewrite fires only for a \<^verbatim>\<open>src\<close> that contains
  \<^verbatim>\<open>arnauudg.github.io/assets/\<close>; the \<^verbatim>\<open>src\<close> of every other element is what it was, and no later
  statement of the script touches it. The witness is the profile image of the CV, whose URL
  has the singular \<^verbatim>\<open>/asset/\<close>.
\<close>

theorem optimize_keeps_other_src:
  assumes "\<not> str_includes (src (st pg el)) HOSTED_ASSETS"
  shows "src (st (snd (optimize pg)) el) = src (st pg el)"
  using assms by (simp add: src_optimize st_allImages)

theorem optimize_keeps_other_src_witness:
  "\<not> str_includes (src (st cv_header_page [0, 0, 0])) HOSTED_ASSETS
   \<and> src (st (snd (optimize cv_header_page)) [0, 0, 0]) = ''https://arnauudg.github.io/asset/profile-picture.jpeg''"
proof -
  have s: "src (st cv_header_page [0, 0, 0]) = ''https://arnauudg.github.io/asset/profile-picture.jpeg''"
    by (simp add: cv_header_page_def)
  have a: "\<not> str_includes (src (st cv_header_page [0, 0, 0])) HOSTED_ASSETS"
    unfolding s by (simp add: str_includes_def HOSTED_ASSETS_def sublist_Cons_right)
  show ?thesis
    using a s optimize_keeps_other_src [OF a] by simp
qed

section \<open>Properties of the pipeline\<close>

lemma quiet_simps [simp]:
  "quiet []"
  "quiet (ev # evs) = (ev \<noteq> Invoke ''cleanup'' \<and> ev \<noteq> ProcessExit 1 \<and> quiet evs)"
  "quiet (evs @ evs') = (quiet evs \<and> quiet evs')"
  by (auto simp: quiet_def cleanup_calls_def)

lemma rethrow_cases:
  "rethrow pre (r, g, evs) = (r', g', evs') \<Longrightarrow> g' = g \<and> evs' = evs \<and> (isl r' = isl r)"
  by (cases r) (auto simp: rethrow_def)

lemma initialize_body_facts:
  "initialize_body e g = (r, g', evs) \<Longrightarrow> evs = [] \<and> closes g' = closes g \<and> config g' = config g"
  by (auto simp: initialize_body_def Let_def split: option.splits sum.splits)

lemma initialize_facts:
  "initialize e g = (r, g', evs) \<Longrightarrow> evs = [] \<and> closes g' = closes g \<and> config g' = config g"
  unfolding initialize_def
  by (cases "initialize_body e g") (auto dest!: rethrow_cases initialize_body_facts)

lemma image_wait_catch_facts:
  "image_wait_catch e g ms = (r, g', evs) \<Longrightarrow> quiet evs \<and> g' = g"
  by (auto simp: image_wait_catch_def split: option.splits)

lemma image_wait_facts:
  "image_wait e g ms = (r, g', evs) \<Longrightarrow> quiet evs \<and> g' = g"
  by (auto simp: image_wait_def Let_def split: option.splits settled.splits prod.splits if_splits
      dest!: image_wait_catch_facts)

lemma navigate_facts:
  "navigate e g t = (r, g', evs) \<Longrightarrow> quiet evs \<and> closes g' = closes g \<and> config g' = config g \<and> browser g' = browser g"
  by (auto simp: navigate_def Let_def split: option.splits sum.splits)

lemma loadContent_body_facts:
  "loadContent_body e g h = (r, g', evs) \<Longrightarrow> quiet evs \<and> closes g' = closes g \<and> config g' = config g \<and> browser g' = browser g"
  by (auto simp: loadContent_body_def split: if_splits sum.splits prod.splits
      dest!: navigate_facts image_wait_facts)

lemma loadContent_facts:
  "loadContent e g h = (r, g', evs) \<Longrightarrow> quiet evs \<and> closes g' = closes g \<and> config g' = config g \<and> browser g' = browser g"
  unfolding loadContent_def
  by (cases "loadContent_body e g h") (auto dest!: rethrow_cases loadContent_body_facts)

lemma applyOptimizations_facts:
  "applyOptimizations e g = (r, g', evs) \<Longrightarrow> evs = [] \<and> closes g' = closes g \<and> config g' = config g \<and> browser g' = browser g"
  unfolding applyOptimizations_def
  by (cases "applyOptimizations_body e g")
     (auto simp: applyOptimizations_body_def split: option.splits prod.splits dest!: rethrow_cases)

lemma generatePDF_facts:
  "generatePDF e g = (r, g', evs) \<Longrightarrow> evs = [] \<and> g' = g"
  unfolding generatePDF_def
  by (cases "generatePDF_body e g")
     (auto simp: generatePDF_body_def split: option.splits sum.splits dest!: rethrow_cases)

lemma cleanup_facts:
  "cleanup e g = (r, g', evs) \<Longrightarrow> quiet evs \<and> (closes g = 0 \<and> close_fails e 0 = None \<longrightarrow> r = Inr ())"
  by (auto simp: cleanup_def split: if_splits option.splits)

lemma try_block_returns:
  assumes "close_fails e 0 = None" and "closes g0 = 0" and "try_block e g0 = (Inr path, g, evs)"
  shows "cleanup_calls evs = 1 \<and> ProcessExit 1 \<notin> set evs"
  using assms unfolding try_block_def Let_def
  by (auto split: prod.splits sum.splits
      dest!: initialize_facts loadContent_facts applyOptimizations_facts generatePDF_facts cleanup_facts
      simp: quiet_def cleanup_calls_def)

lemma try_block_throws:
  assumes "close_fails e 0 = None" and "closes g0 = 0" and "try_block e g0 = (Inl (failed, err), g, evs)"
  shows "quiet evs \<and> closes g = 0 \<and> failed \<noteq> Cleanup"
  using assms unfolding try_block_def Let_def
  by (auto split: prod.splits sum.splits
      dest!: initialize_facts loadContent_facts applyOptimizations_facts generatePDF_facts cleanup_facts)


lemma before_quiet_prefix:
  "quiet xs \<Longrightarrow> before (Invoke ''cleanup'') (ProcessExit 1) (xs @ ys) = before (Invoke ''cleanup'') (ProcessExit 1) ys"
  by (induction xs) auto

lemma quiet_warnings: "quiet (map ConsoleWarn ws)"
  by (induction ws) auto

lemma catch_block_facts:
  assumes "close_fails e 0 = None" and "closes g = 0"
  shows "\<exists>g' ev. catch_block e g err =
           (Exited 1, g', [ConsoleError (''Error during PDF conversion: '' @ error_message err), Invoke ''cleanup''] @ ev @ [ProcessExit 1])
         \<and> quiet ev"
  using assms by (auto simp: catch_block_def cleanup_def Let_def)

text \<open>
  Claim C1, as amended: in every run in which the first call of \<^verbatim>\<open>browser.close()\<close> does not
  throw, \<^verbatim>\<open>cleanup\<close> is called exactly once, whichever stage fails or none; when a stage
  fails the call precedes \<^verbatim>\<open>process.exit(1)\<close>, with which the run then ends, and when none
  fails the run returns the output path.
\<close>

theorem convertToPDF_cleanup_once:
  assumes "close_fails e 0 = None"
  shows "cleanup_calls (snd (snd (convertToPDF e))) = 1
       \<and> (failed_stage e \<noteq> None \<longrightarrow>
            fst (convertToPDF e) = Exited 1
            \<and> ProcessExit 1 \<in> set (snd (snd (convertToPDF e)))
            \<and> before (Invoke ''cleanup'') (ProcessExit 1) (snd (snd (convertToPDF e))))
       \<and> (failed_stage e = None \<longrightarrow> (\<exists>outputPath. fst (convertToPDF e) = Returned outputPath))"
proof -
  obtain cfg warnings where c: "inline_loadConfig (cfg_parse e) (dirname e @ ''/pdf-config.json'') (cfg_file e) = (cfg, warnings)"
    by (cases "inline_loadConfig (cfg_parse e) (dirname e @ ''/pdf-config.json'') (cfg_file e)")
  obtain r g evs where t: "try_block e (new_generator cfg) = (r, g, evs)"
    by (cases "try_block e (new_generator cfg)")
  have z: "closes (new_generator cfg) = 0" by (simp add: new_generator_def)
  show ?thesis
  proof (cases r)
    case (Inr outputPath)
    have "cleanup_calls evs = 1 \<and> ProcessExit 1 \<notin> set evs"
      using try_block_returns [OF assms z] t Inr by simp
    then show ?thesis
      using c t Inr quiet_warnings [of warnings]
      by (simp add: convertToPDF_def failed_stage_def quiet_def cleanup_calls_def)
  next
    case (Inl fe)
    obtain failed err where fe: "fe = (failed, err)" by (cases fe)
    have q: "quiet evs \<and> closes g = 0"
      using try_block_throws [OF assms z] t Inl fe by simp
    obtain g' ev where cb: "catch_block e g err =
           (Exited 1, g', [ConsoleError (''Error during PDF conversion: '' @ error_message err), Invoke ''cleanup''] @ ev @ [ProcessExit 1])"
      and qe: "quiet ev"
    proof -
      have cq: "closes g = 0" using q by simp
      from catch_block_facts [OF assms cq, of err] show ?thesis using that by blast
    qed
    have tr: "snd (snd (convertToPDF e)) =
        (map ConsoleWarn warnings @ evs) @
        [ConsoleError (''Error during PDF conversion: '' @ error_message err), Invoke ''cleanup''] @ ev @ [ProcessExit 1]"
      using c t Inl fe cb by (simp add: convertToPDF_def)
    have qp: "quiet (map ConsoleWarn warnings @ evs)"
      using q quiet_warnings [of warnings] by simp
    have cnt: "cleanup_calls (snd (snd (convertToPDF e))) = 1"
      using qp qe unfolding tr by (simp add: quiet_def cleanup_calls_def)
    have bf: "before (Invoke ''cleanup'') (ProcessExit 1) (snd (snd (convertToPDF e)))"
      unfolding tr by (subst before_quiet_prefix [OF qp]) simp
    have ex: "fst (convertToPDF e) = Exited 1"
      using c t Inl fe cb by (simp add: convertToPDF_def)
    show ?thesis
      using cnt bf ex c t Inl fe by (simp add: failed_stage_def tr)
  qed
qed

lemma document_body_run [simp]: "document_body (run block pg) = document_body pg"
  by (simp add: document_body_def run_def)

lemma optimize_succeeds: "document_body pg = Some body \<Longrightarrow> fst (optimize pg) = None"
  by (simp add: optimize_def Let_def)

lemmas pipeline_defs =
  convertToPDF_def try_block_def catch_block_def inline_loadConfig_def inline_warning_def
  inline_getDefaultConfig_def new_generator_def
  initialize_def initialize_body_def rethrow_def config_section_def read_member_def
  loadContent_def loadContent_body_def navigate_def image_wait_def image_wait_catch_def
  waitForFunction_def timer_def promise_race_def setTimeout_delay_def ToNumber_def TIMEOUT_MAX_def
  applyOptimizations_def applyOptimizations_body_def
  generatePDF_def generatePDF_body_def getOutputPath_def cleanup_def Let_def

lemma img_page_images: "querySelectorAll img_page (Tag ''img'') = [[0, 0]]"
  by (simp add: querySelectorAll_def all_elements_def img_page_def tag_of_def)

lemma img_page_body: "document_body img_page = Some [0]"
  by (simp add: document_body_def img_page_def)

lemma text_page_images: "querySelectorAll text_page (Tag ''img'') = []"
  by (simp add: querySelectorAll_def all_elements_def text_page_def tag_of_def)

text \<open>
  The witness of claim C1: navigation and the fallback both fail, the load stage throws,
  and the run calls \<^verbatim>\<open>cleanup\<close> once, before \<^verbatim>\<open>process.exit(1)\<close>.
\<close>

theorem convertToPDF_cleanup_once_witness:
  "close_fails load_failing_env 0 = None
   \<and> failed_stage load_failing_env = Some ContentLoad
   \<and> cleanup_calls (snd (snd (convertToPDF load_failing_env))) = 1
   \<and> fst (convertToPDF load_failing_env) = Exited 1
   \<and> before (Invoke ''cleanup'') (ProcessExit 1) (snd (snd (convertToPDF load_failing_env)))"
proof -
  have h: "close_fails load_failing_env 0 = None"
    by (simp add: load_failing_env_def happy_env_def)
  have f: "failed_stage load_failing_env = Some ContentLoad"
    by (simp add: failed_stage_def load_failing_env_def happy_env_def pipeline_defs)
  show ?thesis
    using h f convertToPDF_cleanup_once [OF h] by simp
qed

text \<open>
  Claim C1 as stated fails: when the four stages succeed and \<^verbatim>\<open>browser.close()\<close> throws inside
  the \<^verbatim>\<open>cleanup\<close> of the \<^verbatim>\<open>try\<close> block, the \<^verbatim>\<open>catch\<close> block calls \<^verbatim>\<open>cleanup\<close> again.
\<close>

theorem convertToPDF_cleanup_twice_counterexample:
  "snd (snd (convertToPDF close_failing_env)) =
      [ConsoleWarn ''Warning: Could not load config from /cv/pdf-config.json, using defaults'',
       ConsoleLog ''Starting PDF conversion...'', Invoke ''initialize'',
       ConsoleLog ''Browser initialized'', Invoke ''loadContent'',
       WaitForFunction 15000, Settled 1000, ConsoleLog ''HTML content loaded'',
       Invoke ''applyOptimizations'', ConsoleLog ''PDF optimizations applied'',
       Invoke ''generatePDF'', ConsoleLog ''PDF generated successfully: /cv/CV.pdf'',
       Invoke ''cleanup'', BrowserClose,
       ConsoleError ''Error during PDF conversion: Protocol error: Connection closed'',
       Invoke ''cleanup'', BrowserClose, ProcessExit 1]
   \<and> cleanup_calls (snd (snd (convertToPDF close_failing_env))) = 2"
proof -
  obtain pg' where o: "optimize img_page = (None, pg')"
    using optimize_succeeds [OF img_page_body] by (cases "optimize img_page") simp
  have t: "snd (snd (convertToPDF close_failing_env)) =
      [ConsoleWarn ''Warning: Could not load config from /cv/pdf-config.json, using defaults'',
       ConsoleLog ''Starting PDF conversion...'', Invoke ''initialize'',
       ConsoleLog ''Browser initialized'', Invoke ''loadContent'',
       WaitForFunction 15000, Settled 1000, ConsoleLog ''HTML content loaded'',
       Invoke ''applyOptimizations'', ConsoleLog ''PDF optimizations applied'',
       Invoke ''generatePDF'', ConsoleLog ''PDF generated successfully: /cv/CV.pdf'',
       Invoke ''cleanup'', BrowserClose,
       ConsoleError ''Error during PDF conversion: Protocol error: Connection closed'',
       Invoke ''cleanup'', BrowserClose, ProcessExit 1]"
    by (simp add: close_failing_env_def happy_env_def pipeline_defs img_page_images o)
  show ?thesis
    unfolding t by (simp add: cleanup_calls_def)
qed

text \<open>
  Claim C9, as amended: \<^verbatim>\<open>cleanup\<close> does nothing when \<^verbatim>\<open>this.browser\<close> is \<^verbatim>\<open>null\<close>, which is the
  case for a new generator and after an \<^verbatim>\<open>initialize\<close> whose launch failed; otherwise it
  calls \<^verbatim>\<open>browser.close()\<close> once and throws what that call throws, logging nothing.
\<close>

theorem cleanup_noop_or_close:
  "(\<not> browser g \<longrightarrow> cleanup e g = (Inr (), g, []))
   \<and> (browser g \<longrightarrow>
        cleanup e g =
          ((case close_fails e (closes g) of None \<Rightarrow> Inr () | Some m \<Rightarrow> Inl (JsError m)),
           g\<lparr>closes := Suc (closes g)\<rparr>, [BrowserClose]))
   \<and> \<not> browser (new_generator cfg)
   \<and> (launch_fails e \<noteq> None \<longrightarrow> \<not> browser (fst (snd (initialize e (new_generator cfg)))))"
  by (auto simp: cleanup_def new_generator_def initialize_def initialize_body_def rethrow_def
      split: option.splits)

theorem cleanup_noop_or_close_witness:
  "\<not> browser (new_generator JNull)
   \<and> cleanup close_failing_env (new_generator JNull) = (Inr (), new_generator JNull, [])
   \<and> browser launched
   \<and> cleanup happy_env launched = (Inr (), launched\<lparr>closes := Suc 0\<rparr>, [BrowserClose])"
proof -
  have a: "\<not> browser (new_generator JNull)" by (simp add: new_generator_def)
  have b: "browser launched" by (simp add: launched_def)
  have c: "close_fails happy_env (closes launched) = None" by (simp add: happy_env_def)
  have d: "closes launched = 0" by (simp add: launched_def new_generator_def)
  show ?thesis
    using a b c d cleanup_noop_or_close [of "new_generator JNull" close_failing_env JNull]
      cleanup_noop_or_close [of launched happy_env JNull]
    by simp
qed

text \<open>
  Claim C9 as stated fails: on a generator whose browser is open, a failure of
  \<^verbatim>\<open>browser.close()\<close> comes out of \<^verbatim>\<open>cleanup\<close> as a thrown error.
\<close>

theorem cleanup_throws_counterexample:
  "cleanup close_failing_env launched =
     (Inl (JsError ''Protocol error: Connection closed''), launched\<lparr>closes := 1\<rparr>, [BrowserClose])"
  by (simp add: cleanup_def close_failing_env_def happy_env_def launched_def new_generator_def)

lemma setTimeout_delay_JNum:
  "setTimeout_delay e (Some (JNum n)) = (if 1 \<le> n \<and> n \<le> 2147483647 then nat \<lfloor>n\<rfloor> else 1)"
  by (simp add: setTimeout_delay_def ToNumber_def TIMEOUT_MAX_def)

lemma setTimeout_delay_examples:
  "setTimeout_delay happy_env (Some (JNum 2500)) = 2500"
  "setTimeout_delay happy_env (Some (JNum 3000000000)) = 1"
  "setTimeout_delay happy_env (Some (JNum 0)) = 1"
  "setTimeout_delay happy_env (Some (JStr ''300'')) = 300"
  "setTimeout_delay happy_env (Some JNull) = 1"
  "setTimeout_delay happy_env None = 1"
  by (simp_all add: setTimeout_delay_def ToNumber_def TIMEOUT_MAX_def happy_env_def)

lemma race_end:
  "promise_race (catch_null (waitForFunction 15000 done)) (timer d) =
     Resolved (min (case done of None \<Rightarrow> 15000 | Some t \<Rightarrow> min t 15000) d)"
  by (auto simp: promise_race_def waitForFunction_def timer_def min_def split: option.splits)

lemma configured_env_loads:
  "inline_loadConfig (cfg_parse (configured_env ''2500''))
     (dirname (configured_env ''2500'') @ ''/pdf-config.json'') (cfg_file (configured_env ''2500''))
     = (configured (JNum 2500), [])"
  "inline_loadConfig (cfg_parse (configured_env ''3000000000''))
     (dirname (configured_env ''3000000000'') @ ''/pdf-config.json'') (cfg_file (configured_env ''3000000000''))
     = (configured (JNum 3000000000), [])"
  by (simp_all add: configured_env_def happy_env_def inline_loadConfig_def config_parse_def config_text_def)

lemma configured_initialize:
  "initialize (configured_env t) (new_generator (configured v)) = (Inr (), started (configured v), [])"
  by (simp add: configured_env_def happy_env_def started_def configured_def pipeline_defs)

lemma configured_timeouts:
  "config_section (configured v) ''timeouts'' =
     Inr (Some (JObj [(''pageLoad'', JNum 30000), (''imageRender'', v)]))"
  "read_member (Some (JObj [(''pageLoad'', JNum 30000), (''imageRender'', v)])) ''pageLoad'' = Inr (Some (JNum 30000))"
  "prop_opt (Some (JObj [(''pageLoad'', JNum 30000), (''imageRender'', v)])) ''imageRender'' = Some v"
  by (simp_all add: config_section_def configured_def read_member_def)

text \<open>
  Claim C2, amended: in a run whose browser starts and whose document exists and gets into
  the page (by navigation or by the fallback), with at least one \<^verbatim>\<open>img\<close> element,
  \<^verbatim>\<open>loadContent\<close> returns normally whatever the images do: the polled check is armed with the
  timeout 15000 whatever the configuration says, its rejection is swallowed, and the wait
  ends at the earlier of that check and the timer armed with \<^verbatim>\<open>timeouts.imageRender\<close>. When
  that value is a number from 1 to 2147483647, the timer runs for its whole milliseconds;
  for any other number it runs for 1 millisecond. The run goes on to \<^verbatim>\<open>applyOptimizations\<close>
  and, when that returns, to \<^verbatim>\<open>generatePDF\<close>.
\<close>

theorem loadContent_survives_unloaded_images:
  assumes cfg: "inline_loadConfig (cfg_parse e) (dirname e @ ''/pdf-config.json'') (cfg_file e) = (cfg, warnings)"
    and init: "initialize e (new_generator cfg) = (Inr (), g, evs0)"
    and ex: "html_exists e"
    and ts: "config_section cfg ''timeouts'' = Inr timeouts"
    and pl: "read_member timeouts ''pageLoad'' = Inr pageLoad"
    and nav: "goto_fails e = None \<or> (readHtml_fails e = None \<and> setContent_fails e = None)"
    and pr: "probe_fails e = None"
    and imgs: "querySelectorAll (document e) (Tag ''img'') \<noteq> []"
  shows "loadContent e g ''index.html'' =
           (Inr (), g\<lparr>dom := Some (document e)\<rparr>,
            (if goto_fails e = None then [] else [ConsoleWarn WARNING_FILE_URL]) @
            [WaitForFunction 15000,
             Settled (min (case images_done e of None \<Rightarrow> 15000 | Some t \<Rightarrow> min t 15000)
                          (setTimeout_delay e (prop_opt timeouts ''imageRender'')))])
       \<and> (\<forall>n. prop_opt timeouts ''imageRender'' = Some (JNum n) \<longrightarrow>
             setTimeout_delay e (prop_opt timeouts ''imageRender'') =
               (if 1 \<le> n \<and> n \<le> 2147483647 then nat \<lfloor>n\<rfloor> else 1))
       \<and> Invoke ''applyOptimizations'' \<in> set (snd (snd (convertToPDF e)))
       \<and> (fst (applyOptimizations e (g\<lparr>dom := Some (document e)\<rparr>)) = Inr ()
            \<longrightarrow> Invoke ''generatePDF'' \<in> set (snd (snd (convertToPDF e))))"
proof -
  have cg: "config g = cfg" and e0: "evs0 = []"
    using initialize_facts [OF init] by (simp_all add: new_generator_def)
  have lc: "loadContent e g ''index.html'' =
           (Inr (), g\<lparr>dom := Some (document e)\<rparr>,
            (if goto_fails e = None then [] else [ConsoleWarn WARNING_FILE_URL]) @
            [WaitForFunction 15000,
             Settled (min (case images_done e of None \<Rightarrow> 15000 | Some t \<Rightarrow> min t 15000)
                          (setTimeout_delay e (prop_opt timeouts ''imageRender'')))])"
    using ex ts pl nav pr imgs cg
    by (auto simp: loadContent_def loadContent_body_def navigate_def image_wait_def rethrow_def
        Let_def race_end split: option.splits)
  have pin: "\<forall>n. prop_opt timeouts ''imageRender'' = Some (JNum n) \<longrightarrow>
             setTimeout_delay e (prop_opt timeouts ''imageRender'') =
               (if 1 \<le> n \<and> n \<le> 2147483647 then nat \<lfloor>n\<rfloor> else 1)"
    by (simp add: setTimeout_delay_JNum)
  obtain r3 g3 ev3 where ao: "applyOptimizations e (g\<lparr>dom := Some (document e)\<rparr>) = (r3, g3, ev3)"
    by (cases "applyOptimizations e (g\<lparr>dom := Some (document e)\<rparr>)")
  obtain r4 g4 ev4 where gp: "generatePDF e g3 = (r4, g4, ev4)"
    by (cases "generatePDF e g3")
  obtain r5 g5 ev5 where cl: "cleanup e g4 = (r5, g5, ev5)"
    by (cases "cleanup e g4")
  have a: "Invoke ''applyOptimizations'' \<in> set (snd (snd (convertToPDF e)))"
    using cfg init lc ao gp cl e0
    by (auto simp: convertToPDF_def try_block_def Let_def split: sum.splits prod.splits)
  have b: "r3 = Inr () \<Longrightarrow> Invoke ''generatePDF'' \<in> set (snd (snd (convertToPDF e)))"
    using cfg init lc ao gp cl e0
    by (auto simp: convertToPDF_def try_block_def Let_def split: sum.splits prod.splits)
  show ?thesis
    using lc pin a b ao by simp
qed

text \<open>
  The theorem at a configuration file that sets \<^verbatim>\<open>timeouts.imageRender\<close> to 2500, with an image
  that never completes: the wait ends after 2500 milliseconds and the run reaches
  \<^verbatim>\<open>generatePDF\<close>.
\<close>

theorem loadContent_survives_unloaded_images_witness:
  "loadContent (configured_env ''2500'') (started (configured (JNum 2500))) ''index.html'' =
     (Inr (), (started (configured (JNum 2500)))\<lparr>dom := Some img_page\<rparr>,
      [WaitForFunction 15000, Settled 2500])
   \<and> images_done (configured_env ''2500'') = None
   \<and> Invoke ''applyOptimizations'' \<in> set (snd (snd (convertToPDF (configured_env ''2500''))))
   \<and> Invoke ''generatePDF'' \<in> set (snd (snd (convertToPDF (configured_env ''2500''))))"
proof -
  let ?e = "configured_env ''2500''"
  let ?g = "started (configured (JNum 2500))"
  have ex: "html_exists ?e" by (simp add: configured_env_def happy_env_def)
  have nav: "goto_fails ?e = None \<or> (readHtml_fails ?e = None \<and> setContent_fails ?e = None)"
    by (simp add: configured_env_def happy_env_def)
  have pr: "probe_fails ?e = None" by (simp add: configured_env_def happy_env_def)
  have imgs: "querySelectorAll (document ?e) (Tag ''img'') \<noteq> []"
    by (simp add: configured_env_def happy_env_def img_page_images)
  have doc: "document ?e = img_page" "images_done ?e = None" "goto_fails ?e = None"
    by (simp_all add: configured_env_def happy_env_def)
  obtain pg' where o: "optimize img_page = (None, pg')"
    using optimize_succeeds [OF img_page_body] by (cases "optimize img_page") simp
  have ok: "fst (applyOptimizations ?e (?g\<lparr>dom := Some img_page\<rparr>)) = Inr ()"
    by (simp add: applyOptimizations_def applyOptimizations_body_def rethrow_def o
        configured_env_def happy_env_def started_def)
  show ?thesis
    using loadContent_survives_unloaded_images [OF configured_env_loads(1) configured_initialize ex
        configured_timeouts(1,2) nav pr imgs] doc ok
    by (simp add: configured_timeouts(3) setTimeout_delay_JNum)
qed

text \<open>
  Claim C2 as stated fails: with \<^verbatim>\<open>timeouts.imageRender\<close> set to 3000000000 and an image that
  never completes, the wait ends after 1 millisecond, the delay the timer gives a value
  above 2147483647, and not at the earlier of the check (15000) and the configured delay.
\<close>

theorem loadContent_race_counterexample:
  "inline_loadConfig (cfg_parse (configured_env ''3000000000''))
     (dirname (configured_env ''3000000000'') @ ''/pdf-config.json'') (cfg_file (configured_env ''3000000000''))
     = (configured (JNum 3000000000), [])
   \<and> lookup_path (Some (configured (JNum 3000000000))) [''timeouts'', ''imageRender''] = Some (JNum 3000000000)
   \<and> images_done (configured_env ''3000000000'') = None
   \<and> loadContent (configured_env ''3000000000'') (started (configured (JNum 3000000000))) ''index.html'' =
       (Inr (), (started (configured (JNum 3000000000)))\<lparr>dom := Some img_page\<rparr>,
        [WaitForFunction 15000, Settled 1])"
proof -
  let ?e = "configured_env ''3000000000''"
  let ?g = "started (configured (JNum 3000000000))"
  have a: "inline_loadConfig (cfg_parse ?e) (dirname ?e @ ''/pdf-config.json'') (cfg_file ?e)
             = (configured (JNum 3000000000), [])"
    by (rule configured_env_loads(2))
  have b: "lookup_path (Some (configured (JNum 3000000000))) [''timeouts'', ''imageRender''] = Some (JNum 3000000000)"
    by (simp add: configured_def)
  have c: "images_done ?e = None"
    by (simp add: configured_env_def happy_env_def)
  have d: "loadContent ?e ?g ''index.html'' = (Inr (), ?g\<lparr>dom := Some img_page\<rparr>, [WaitForFunction 15000, Settled 1])"
    by (simp add: configured_env_def happy_env_def started_def configured_def img_page_images
        pipeline_defs)
  show ?thesis
    by (intro conjI a b c d)
qed

text \<open>
  Claim C8, amended: when the loaded document has no \<^verbatim>\<open>img\<close> element, the settle wait of
  \<^verbatim>\<open>loadContent\<close> is one \<^verbatim>\<open>waitForTimeout\<close> armed with \<^verbatim>\<open>timeouts.imageRender\<close>: when the call
  returns it is the only wait, every wait of the method has that delay, and
  \<^verbatim>\<open>waitForFunction\<close> is not called. When the value is a number from 1 to 2147483647 the delay
  is its whole milliseconds; for any other number it is 1 millisecond.
\<close>

theorem loadContent_without_images:
  assumes ex: "html_exists e"
    and ts: "config_section (config g) ''timeouts'' = Inr timeouts"
    and pl: "read_member timeouts ''pageLoad'' = Inr pageLoad"
    and nav: "goto_fails e = None \<or> (readHtml_fails e = None \<and> setContent_fails e = None)"
    and pr: "probe_fails e = None"
    and noimg: "querySelectorAll (document e) (Tag ''img'') = []"
  shows "(waitForTimeout_fails e 0 = None \<longrightarrow>
            loadContent e g htmlPath =
              (Inr (), g\<lparr>dom := Some (document e)\<rparr>,
               (if goto_fails e = None then [] else [ConsoleWarn WARNING_FILE_URL]) @
               [Settled (setTimeout_delay e (prop_opt timeouts ''imageRender''))]))
       \<and> (\<forall>t. Settled t \<in> set (snd (snd (loadContent e g htmlPath))) \<longrightarrow>
             t = setTimeout_delay e (prop_opt timeouts ''imageRender''))
       \<and> (\<forall>n. prop_opt timeouts ''imageRender'' = Some (JNum n) \<longrightarrow>
             setTimeout_delay e (prop_opt timeouts ''imageRender'') =
               (if 1 \<le> n \<and> n \<le> 2147483647 then nat \<lfloor>n\<rfloor> else 1))
       \<and> WaitForFunction timeout \<notin> set (snd (snd (loadContent e g htmlPath)))"
proof -
  let ?d = "setTimeout_delay e (prop_opt timeouts ''imageRender'')"
  let ?g = "g\<lparr>dom := Some (document e)\<rparr>"
  let ?w = "if goto_fails e = None then [] else [ConsoleWarn WARNING_FILE_URL]"
  obtain r g2 evs where iw: "image_wait e ?g (prop_opt timeouts ''imageRender'') = (r, g2, evs)"
    by (cases "image_wait e ?g (prop_opt timeouts ''imageRender'')")
  have nv: "navigate e g timeouts = (Inr (), ?g, ?w)"
    using pl nav by (auto simp: navigate_def Let_def split: option.splits)
  have lc: "loadContent e g htmlPath = rethrow ''Failed to load content: '' (r, g2, ?w @ evs)"
    using ex ts nv iw by (simp add: loadContent_def loadContent_body_def)
  have evs: "snd (snd (loadContent e g htmlPath)) = ?w @ evs"
    unfolding lc by (cases r) (simp_all add: rethrow_def)
  have shape: "(waitForTimeout_fails e 0 = None \<and> r = Inr () \<and> g2 = ?g \<and> evs = [Settled ?d])
      \<or> (waitForTimeout_fails e 0 \<noteq> None \<and> evs = [ConsoleWarn WARNING_IMAGES, Settled ?d])
      \<or> (waitForTimeout_fails e 0 \<noteq> None \<and> evs = [ConsoleWarn WARNING_IMAGES])"
    using iw pr noimg
    by (auto simp: image_wait_def image_wait_catch_def split: option.splits)
  have one: "waitForTimeout_fails e 0 = None \<longrightarrow> loadContent e g htmlPath = (Inr (), ?g, ?w @ [Settled ?d])"
    using shape unfolding lc by (auto simp: rethrow_def)
  have two: "\<forall>t. Settled t \<in> set (snd (snd (loadContent e g htmlPath))) \<longrightarrow> t = ?d"
    unfolding evs using shape by auto
  have three: "WaitForFunction timeout \<notin> set (snd (snd (loadContent e g htmlPath)))"
    unfolding evs using shape by auto
  have pin: "\<forall>n. prop_opt timeouts ''imageRender'' = Some (JNum n) \<longrightarrow>
             ?d = (if 1 \<le> n \<and> n \<le> 2147483647 then nat \<lfloor>n\<rfloor> else 1)"
    by (simp add: setTimeout_delay_JNum)
  show ?thesis
    using one two three pin by blast
qed

text \<open>
  The theorem at a configuration that sets \<^verbatim>\<open>timeouts.imageRender\<close> to 2500 and a document
  without images: one wait of 2500 milliseconds.
\<close>

theorem loadContent_without_images_witness:
  "querySelectorAll (document (happy_env\<lparr>document := text_page\<rparr>)) (Tag ''img'') = []
   \<and> loadContent (happy_env\<lparr>document := text_page\<rparr>) (started (configured (JNum 2500))) ''index.html'' =
       (Inr (), (started (configured (JNum 2500)))\<lparr>dom := Some text_page\<rparr>, [Settled 2500])
   \<and> WaitForFunction 15000 \<notin>
       set (snd (snd (loadContent (happy_env\<lparr>document := text_page\<rparr>) (started (configured (JNum 2500))) ''index.html'')))"
proof -
  let ?e = "happy_env\<lparr>document := text_page\<rparr>"
  let ?g = "started (configured (JNum 2500))"
  have ex: "html_exists ?e" by (simp add: happy_env_def)
  have ts: "config_section (config ?g) ''timeouts'' =
              Inr (Some (JObj [(''pageLoad'', JNum 30000), (''imageRender'', JNum 2500)]))"
    by (simp add: started_def new_generator_def configured_timeouts)
  have nav: "goto_fails ?e = None \<or> (readHtml_fails ?e = None \<and> setContent_fails ?e = None)"
    by (simp add: happy_env_def)
  have pr: "probe_fails ?e = None" by (simp add: happy_env_def)
  have noimg: "querySelectorAll (document ?e) (Tag ''img'') = []"
    by (simp add: text_page_images)
  have wt: "waitForTimeout_fails ?e 0 = None" by (simp add: happy_env_def)
  have doc: "document ?e = text_page" "goto_fails ?e = None"
    by (simp_all add: happy_env_def)
  note th = loadContent_without_images [OF ex ts configured_timeouts(2) nav pr noimg,
      of "''index.html''" 15000]
  have lc: "loadContent ?e ?g ''index.html'' = (Inr (), ?g\<lparr>dom := Some text_page\<rparr>, [Settled 2500])"
    using th [THEN conjunct1, THEN mp, OF wt]
    by (simp add: doc configured_timeouts(3) setTimeout_delay_JNum)
  show ?thesis
    unfolding lc using noimg by simp
qed

text \<open>
  Claim C8 as stated fails: with \<^verbatim>\<open>timeouts.imageRender\<close> set to 3000000000 and a document
  without images, the settle wait is 1 millisecond.
\<close>

theorem loadContent_wait_counterexample:
  "lookup_path (Some (configured (JNum 3000000000))) [''timeouts'', ''imageRender''] = Some (JNum 3000000000)
   \<and> querySelectorAll (document (happy_env\<lparr>document := text_page\<rparr>)) (Tag ''img'') = []
   \<and> loadContent (happy_env\<lparr>document := text_page\<rparr>) (started (configured (JNum 3000000000))) ''index.html'' =
       (Inr (), (started (configured (JNum 3000000000)))\<lparr>dom := Some text_page\<rparr>, [Settled 1])"
  by (simp add: happy_env_def started_def configured_def text_page_images
      pipeline_defs)

section \<open>Properties of the in-page script: running it twice\<close>

subsection \<open>Substrings\<close>





subsection \<open>Setting style properties\<close>




lemma css_set_mem: "(k, v) \<in> set (css_set k v ds)"
  by (induction ds) auto



lemma set_all_simps [simp]:
  "set_all [] ds = ds"
  "set_all (kv # kvs) ds = set_all kvs (css_set (fst kv) (snd kv) ds)"
  "set_all (kvs @ kvs') ds = set_all kvs' (set_all kvs ds)"
  by (simp_all add: set_all_def)





subsection \<open>The colour fix of the span loop between two runs of property writes\<close>




subsection \<open>The image rewrite\<close>







subsection \<open>Writes, element by element\<close>




lemma writes_at_append [simp]: "writes_at p (ws @ ws') = writes_at p ws @ writes_at p ws'"
  by (simp add: writes_at_def)



lemma src_fold_elem_op:
  "no_src ws \<Longrightarrow> src (fold elem_op ws e) = src e"
proof (induction ws arbitrary: e)
  case Nil
  show ?case by simp
next
  case (Cons w ws)
  then show ?case by (cases w) simp_all
qed




subsection \<open>What a pass never changes\<close>



















subsection \<open>Steps whose writes do not depend on what a pass changes\<close>













































lemma tree_run [simp]: "tree (run block pg) = tree pg"
  by (simp add: run_def)



















end
